theory Spec2Isabelle
  imports Main "HOL-Library.Word" "HOL-Library.Code_Target_Numeral"
begin

unbundle bit_operations_syntax

section \<open>Machine types\<close>

type_synonym u8 = "8 word"
type_synonym u16 = "16 word"
type_synonym u32 = "32 word"
type_synonym u64 = "64 word"

section \<open>Interrupt vector table (instruction_executor.cpp)\<close>

text \<open>
  The table is a \<open>std::map<uint64_t, uint64_t>\<close>, default-constructed (empty) and filled once
  by the constructor of the file-scope object \<open>__initialize_vector_instance__\<close>.
  \<open>std::map::insert\<close> keeps an entry that is already present.
\<close>

type_synonym vector_table = "u64 \<rightharpoonup> u64"

definition map_insert :: "vector_table \<Rightarrow> u64 \<Rightarrow> u64 \<Rightarrow> vector_table" where
  "map_insert m k v = (case m k of None \<Rightarrow> m(k \<mapsto> v) | Some _ \<Rightarrow> m)"

definition TOTAL_ENTRIES :: nat where "TOTAL_ENTRIES = 512"
definition INCREMENT :: u64 where "INCREMENT = 8"
definition START_ADDRESS :: u64 where "START_ADDRESS = 0xA0000"

text \<open>The loop \<open>for (uint64_t i = 0; i < TOTAL_ENTRIES; i++)\<close>, entered at counter \<open>i\<close>.\<close>

function initialize_vector_loop :: "nat \<Rightarrow> vector_table \<Rightarrow> vector_table" where
  "initialize_vector_loop i tbl =
     (if i < TOTAL_ENTRIES
      then initialize_vector_loop (Suc i)
             (map_insert tbl (of_nat i) (START_ADDRESS + of_nat i * INCREMENT))
      else tbl)"
  by pat_completeness auto
termination
  by (relation "measure (\<lambda>(i, tbl). TOTAL_ENTRIES - i)") auto

definition interruption_vector_address_table :: vector_table where
  "interruption_vector_address_table = initialize_vector_loop 0 Map.empty"

section \<open>Decimal rendering (\<open>std::to_string\<close>)\<close>

definition digit_char :: "nat \<Rightarrow> char" where
  "digit_char d = char_of (48 + d)"

function to_string :: "nat \<Rightarrow> string" where
  "to_string n = (if n < 10 then [digit_char n] else to_string (n div 10) @ [digit_char (n mod 10)])"
  by pat_completeness auto
termination
  by (relation "measure id") auto

declare to_string.simps [simp del]

section \<open>Processor state (real_mode_target_access.cpp, instruction_executor.cpp)\<close>

text \<open>
  The header \<open>cpu.h\<close> is not among the sources. What the two translation units use from it is
  modelled as follows.

  The register file \<open>CPU.Registers\<close>: the slots \<open>R0..R7\<close>, \<open>ExtendedRegister0..7\<close>,
  \<open>HalfExtendedRegister0..7\<close> and \<open>FullyExtendedRegister0..15\<close> are four families indexed by
  the number in the slot's name (\<open>R 3\<close> is \<open>R3\<close>), of the widths the casts in
  \<open>do_set_register\<close> give them; \<open>StackPointer\<close>, \<open>DataPointer\<close> and
  \<open>ExtendedSegmentPointer\<close> are 64-bit slots.
\<close>

record registers =
  R :: "nat \<Rightarrow> u8"
  ExtendedRegister :: "nat \<Rightarrow> u16"
  HalfExtendedRegister :: "nat \<Rightarrow> u32"
  FullyExtendedRegister :: "nat \<Rightarrow> u64"
  StackPointer :: u64
  DataPointer :: u64
  ExtendedSegmentPointer :: u64

text \<open>
  Modelled from the spec: the processor object of \<open>cpu.h\<close>, which is missing. It holds the
  register file, a flat byte-addressed memory and the instruction pointer from which
  \<open>pop<N>\<close> fetches.
\<close>

record processor =
  Registers :: registers
  Memory :: "u64 \<Rightarrow> u8"
  InstructionPointer :: u64

text \<open>
  The constants of \<open>cpu.h\<close> whose values are not in the sources are parameters of the model:
  the register indices of the three control registers and the interrupt code.
  \<open>do_set_register\<close> lists \<open>case 0x00 .. case 0x0f\<close> and the three register constants in
  one \<open>switch\<close>, which C++ accepts only when the labels are pairwise different.
\<close>

record cpu_consts =
  R_StackPointer :: nat
  R_DataPointer :: nat
  R_ExtendedSegmentPointer :: nat
  INT_ILLEGAL_INSTRUCTION :: u64

definition distinct_case_labels :: "cpu_consts \<Rightarrow> bool" where
  "distinct_case_labels c \<longleftrightarrow>
     distinct ([0 ..< 16] @ [R_StackPointer c, R_DataPointer c, R_ExtendedSegmentPointer c])"

text \<open>
  The three operand prefixes, with the values that encode.target.cpp gives them; the
  processor's translation unit takes the same names from \<open>cpu.h\<close>.
\<close>

definition REGISTER_PREFIX :: u8 where "REGISTER_PREFIX = 0x01"
definition CONSTANT_PREFIX :: u8 where "CONSTANT_PREFIX = 0x02"
definition MEMORY_PREFIX :: u8 where "MEMORY_PREFIX = 0x03"

datatype cpu_error = IllegalInstruction

text \<open>Little-endian value of a byte sequence, as \<open>memcpy\<close> into an integer gives it.\<close>

fun le_nat :: "u8 list \<Rightarrow> nat" where
  "le_nat [] = 0"
| "le_nat (b # bs) = unat b + 256 * le_nat bs"

definition le_u64 :: "u8 list \<Rightarrow> u64" where
  "le_u64 bs = of_nat (le_nat bs)"

text \<open>The \<open>n\<close> low bytes of a 64-bit value, lowest first.\<close>

definition le_bytes :: "nat \<Rightarrow> u64 \<Rightarrow> u8 list" where
  "le_bytes n v = map (\<lambda>i. ucast (drop_bit (8 * i) v)) [0 ..< n]"

text \<open>
  Modelled from the spec: \<open>get_memory(address, buffer, length)\<close> and
  \<open>write_memory(address, buffer, length)\<close> of the missing \<open>cpu.h\<close>, which treat an access
  as \<open>length\<close> consecutive bytes starting at \<open>address\<close>.
\<close>

definition get_memory :: "processor \<Rightarrow> u64 \<Rightarrow> nat \<Rightarrow> u8 list" where
  "get_memory s addr len = map (\<lambda>i. Memory s (addr + of_nat i)) [0 ..< len]"

fun store_bytes :: "(u64 \<Rightarrow> u8) \<Rightarrow> u64 \<Rightarrow> u8 list \<Rightarrow> (u64 \<Rightarrow> u8)" where
  "store_bytes m addr [] = m"
| "store_bytes m addr (b # bs) = store_bytes (m(addr := b)) (addr + 1) bs"

definition write_memory :: "processor \<Rightarrow> u64 \<Rightarrow> u8 list \<Rightarrow> processor" where
  "write_memory s addr bs = s\<lparr>Memory := store_bytes (Memory s) addr bs\<rparr>"

text \<open>
  Modelled from the spec: \<open>pop<N>\<close> of the missing \<open>cpu.h\<close>, which removes \<open>N / 8\<close> bytes
  from the instruction stream at the instruction pointer and advances the pointer.
\<close>

definition cpu_pop8 :: "processor \<Rightarrow> u8 \<times> processor" where
  "cpu_pop8 s = (Memory s (InstructionPointer s),
                 s\<lparr>InstructionPointer := InstructionPointer s + 1\<rparr>)"

definition cpu_pop64 :: "processor \<Rightarrow> u64 \<times> processor" where
  "cpu_pop64 s = (le_u64 (get_memory s (InstructionPointer s) 8),
                  s\<lparr>InstructionPointer := InstructionPointer s + 8\<rparr>)"

subsection \<open>The operand object \<open>processor::Target\<close>\<close>

text \<open>
  A \<open>Target\<close> fills its own fields while it decodes; the sub-operands of a memory operand are
  decoded into the same object and read back before the memory fields overwrite them. The
  fields of \<open>TargetInformation\<close> are kept apart here; each function below reads only the one
  that belongs to the current \<open>TargetType\<close>.
\<close>

datatype target_type = TypeRegister | TypeConstant | TypeMemory

record target =
  TargetType :: target_type
  TargetWidth :: u8
  RegisterIndex :: u8
  ConstantValue :: u64
  MemoryAddress :: u64
  literal :: string

definition do_setup_register_info :: "processor \<times> target \<Rightarrow> cpu_error + processor \<times> target" where
  "do_setup_register_info st =
     (let (s, t) = st;
          (width, s1) = cpu_pop8 s;
          (register_index, s2) = cpu_pop8 s1;
          t1 = t\<lparr>RegisterIndex := register_index, TargetType := TypeRegister, TargetWidth := width\<rparr>
      in if width = 0x08 then Inr (s2, t1\<lparr>literal := ''%R'' @ to_string (unat register_index)\<rparr>)
         else if width = 0x16 then Inr (s2, t1\<lparr>literal := ''%EXR'' @ to_string (unat register_index)\<rparr>)
         else if width = 0x32 then Inr (s2, t1\<lparr>literal := ''%HER'' @ to_string (unat register_index)\<rparr>)
         else if width = 0x64 then Inr (s2, t1\<lparr>literal := ''%FER'' @ to_string (unat register_index)\<rparr>)
         else if width = 0xFC then Inr (s2, t1\<lparr>literal := ''%XMM'' @ to_string (unat register_index)\<rparr>)
         else Inl IllegalInstruction)"

definition do_setup_constant_info :: "processor \<times> target \<Rightarrow> cpu_error + processor \<times> target" where
  "do_setup_constant_info st =
     (let (s, t) = st;
          (tag, s1) = cpu_pop8 s
      in if tag \<noteq> 0x64 then Inl IllegalInstruction
         else let (constant_value, s2) = cpu_pop64 s1
              in Inr (s2, t\<lparr>TargetType := TypeConstant, ConstantValue := constant_value,
                            literal := ''$('' @ to_string (unat constant_value) @ '')''\<rparr>))"

definition do_get_register :: "cpu_consts \<Rightarrow> processor \<Rightarrow> target \<Rightarrow> cpu_error + u64" where
  "do_get_register c s t =
     (let idx = unat (RegisterIndex t); regs = Registers s
      in if TargetWidth t = 0x08 then
           (if idx \<le> 7 then Inr (ucast (R regs idx)) else Inl IllegalInstruction)
         else if TargetWidth t = 0x16 then
           (if idx \<le> 7 then Inr (ucast (ExtendedRegister regs idx)) else Inl IllegalInstruction)
         else if TargetWidth t = 0x32 then
           (if idx \<le> 7 then Inr (ucast (HalfExtendedRegister regs idx)) else Inl IllegalInstruction)
         else if TargetWidth t = 0x64 then
           (if idx \<le> 7 then Inr (FullyExtendedRegister regs idx)
            else if idx = R_StackPointer c then Inr (StackPointer regs)
            else if idx = R_DataPointer c then Inr (DataPointer regs)
            else if idx = R_ExtendedSegmentPointer c then Inr (ExtendedSegmentPointer regs)
            else Inl IllegalInstruction)
         else Inl IllegalInstruction)"

definition set_registers :: "processor \<Rightarrow> registers \<Rightarrow> processor" where
  "set_registers s regs = s\<lparr>Registers := regs\<rparr>"

definition do_set_register :: "cpu_consts \<Rightarrow> processor \<Rightarrow> target \<Rightarrow> u64 \<Rightarrow> cpu_error + processor" where
  "do_set_register c s t reg =
     (let idx = unat (RegisterIndex t); regs = Registers s
      in if TargetWidth t = 0x08 then
           (if idx \<le> 7 then Inr (set_registers s (regs\<lparr>R := (R regs)(idx := ucast reg)\<rparr>))
            else Inl IllegalInstruction)
         else if TargetWidth t = 0x16 then
           (if idx \<le> 7
            then Inr (set_registers s (regs\<lparr>ExtendedRegister := (ExtendedRegister regs)(idx := ucast reg)\<rparr>))
            else Inl IllegalInstruction)
         else if TargetWidth t = 0x32 then
           (if idx \<le> 7
            then Inr (set_registers s
                   (regs\<lparr>HalfExtendedRegister := (HalfExtendedRegister regs)(idx := ucast reg)\<rparr>))
            else Inl IllegalInstruction)
         else if TargetWidth t = 0x64 then
           (if idx \<le> 15
            then Inr (set_registers s
                   (regs\<lparr>FullyExtendedRegister := (FullyExtendedRegister regs)(idx := reg)\<rparr>))
            else if idx = R_StackPointer c then Inr (set_registers s (regs\<lparr>StackPointer := reg\<rparr>))
            else if idx = R_DataPointer c then Inr (set_registers s (regs\<lparr>DataPointer := reg\<rparr>))
            else if idx = R_ExtendedSegmentPointer c
            then Inr (set_registers s (regs\<lparr>ExtendedSegmentPointer := reg\<rparr>))
            else Inl IllegalInstruction)
         else Inl IllegalInstruction)"

text \<open>
  \<open>write_memory(address, (char*)&val, actual_width)\<close> passes the first \<open>actual_width\<close>
  bytes of \<open>val\<close> as the host stores it, lowest byte first; \<open>get_memory\<close> into
  \<open>(char*)&Value\<close> fills \<open>sizeof(Value)\<close> bytes the same way.
\<close>

definition set_target_content_in_u64bit_t ::
  "cpu_consts \<Rightarrow> processor \<Rightarrow> target \<Rightarrow> u64 \<Rightarrow> cpu_error + processor" where
  "set_target_content_in_u64bit_t c s t val =
     (case (if TargetWidth t = 0x08 then Some (1::nat)
            else if TargetWidth t = 0x16 then Some 2
            else if TargetWidth t = 0x32 then Some 4
            else if TargetWidth t = 0x64 then Some 8
            else None) of
        None \<Rightarrow> Inl IllegalInstruction
      | Some actual_width \<Rightarrow>
          (case TargetType t of
             TypeRegister \<Rightarrow> do_set_register c s t val
           | TypeConstant \<Rightarrow> Inl IllegalInstruction
           | TypeMemory \<Rightarrow> Inr (write_memory s (MemoryAddress t) (le_bytes actual_width val))))"

definition get_target_content_in_u64bit_t ::
  "cpu_consts \<Rightarrow> processor \<Rightarrow> target \<Rightarrow> cpu_error + u64" where
  "get_target_content_in_u64bit_t c s t =
     (case TargetType t of
        TypeRegister \<Rightarrow> do_get_register c s t
      | TypeConstant \<Rightarrow> Inr (ConstantValue t)
      | TypeMemory \<Rightarrow> Inr (le_u64 (get_memory s (MemoryAddress t) 8)))"

text \<open>
  One of the three identical blocks of \<open>do_setup_memory_info\<close>: pop a prefix, require it to
  be the register or the constant prefix, decode that operand into the object, read its
  64-bit content and keep its literal. The call \<open>do_decode_via_prefix(prefix)\<close> in the block
  can only reach the register and the constant case, which are written out here.
\<close>

definition decode_parameter ::
  "cpu_consts \<Rightarrow> processor \<times> target \<Rightarrow> cpu_error + (u64 \<times> string) \<times> processor \<times> target" where
  "decode_parameter c st =
     (let (s, t) = st;
          (prefix, s1) = cpu_pop8 s
      in if \<not> (prefix = REGISTER_PREFIX \<or> prefix = CONSTANT_PREFIX) then Inl IllegalInstruction
         else case (if prefix = REGISTER_PREFIX then do_setup_register_info (s1, t)
                    else do_setup_constant_info (s1, t)) of
                Inl e \<Rightarrow> Inl e
              | Inr (s2, t2) \<Rightarrow>
                  (case get_target_content_in_u64bit_t c s2 t2 of
                     Inl e \<Rightarrow> Inl e
                   | Inr v \<Rightarrow> Inr ((v, literal t2), s2, t2)))"

definition do_setup_memory_info ::
  "cpu_consts \<Rightarrow> processor \<times> target \<Rightarrow> cpu_error + processor \<times> target" where
  "do_setup_memory_info c st =
     (let (s, t) = st;
          (width, s0) = cpu_pop8 s
      in case decode_parameter c (s0, t) of
           Inl e \<Rightarrow> Inl e
         | Inr ((BaseAddress, literal_base), s1, t1) \<Rightarrow>
        (case decode_parameter c (s1, t1) of
           Inl e \<Rightarrow> Inl e
         | Inr ((Offset1, literal_off1), s2, t2) \<Rightarrow>
        (case decode_parameter c (s2, t2) of
           Inl e \<Rightarrow> Inl e
         | Inr ((Offset2, literal_off2), s3, t3) \<Rightarrow>
            (let (ratio_byte, s4) = cpu_pop8 s3;
                 Ratio = (ucast ratio_byte :: u64)
             in Inr (s4, t3\<lparr>TargetType := TypeMemory,
                           MemoryAddress := (BaseAddress + Offset1 + Offset2) * Ratio,
                           TargetWidth := width,
                           literal := ''*'' @ to_string (unat Ratio) @ ''('' @ literal_base @
                                      '', '' @ literal_off1 @ '', '' @ literal_off2 @ '')''\<rparr>)))))"

definition do_decode_via_prefix ::
  "cpu_consts \<Rightarrow> u8 \<Rightarrow> processor \<times> target \<Rightarrow> cpu_error + processor \<times> target" where
  "do_decode_via_prefix c prefix st =
     (if prefix = REGISTER_PREFIX then do_setup_register_info st
      else if prefix = CONSTANT_PREFIX then do_setup_constant_info st
      else if prefix = MEMORY_PREFIX then do_setup_memory_info c st
      else Inl IllegalInstruction)"

text \<open>
  The constructor \<open>Target(processor &)\<close>. The object's fields are indeterminate when the
  constructor starts; \<open>t0\<close> stands for them.
\<close>

definition Target :: "cpu_consts \<Rightarrow> processor \<Rightarrow> target \<Rightarrow> cpu_error + processor \<times> target" where
  "Target c s t0 =
     (let (prefix, s1) = cpu_pop8 s
      in case do_decode_via_prefix c prefix (s1, t0) of
           Inl e \<Rightarrow> Inl e
         | Inr (s2, t) \<Rightarrow> Inr (s2, t\<lparr>literal := ''<'' @ literal t @ ''>''\<rparr>))"

subsection \<open>The executor (instruction_executor.cpp)\<close>

definition soft_interruption_ready :: "u64 \<Rightarrow> processor \<Rightarrow> processor" where
  "soft_interruption_ready int_code s = s"

definition nop :: "processor \<Rightarrow> processor" where
  "nop s = s"

definition pop_target :: "cpu_consts \<Rightarrow> processor \<Rightarrow> target \<Rightarrow> cpu_error + processor \<times> target" where
  "pop_target c s t0 = Target c s t0"

text \<open>
  Modelled from the spec: \<open>Target::get<uint64_t>\<close> and the assignment of a value to a
  \<open>Target\<close>, both declared in the missing \<open>cpu.h\<close>, are taken to be the resolver's \<open>get64\<close>
  and \<open>set64\<close>, that is \<open>get_target_content_in_u64bit_t\<close> and
  \<open>set_target_content_in_u64bit_t\<close>.
\<close>

definition add :: "cpu_consts \<Rightarrow> processor \<Rightarrow> target \<Rightarrow> cpu_error + processor" where
  "add c s t0 =
     (let (width, s1) = cpu_pop8 s
      in case pop_target c s1 t0 of
           Inl e \<Rightarrow> Inl e
         | Inr (s2, operand1) \<Rightarrow>
        (case pop_target c s2 t0 of
           Inl e \<Rightarrow> Inl e
         | Inr (s3, operand2) \<Rightarrow>
        (case get_target_content_in_u64bit_t c s3 operand1 of
           Inl e \<Rightarrow> Inl e
         | Inr a \<Rightarrow>
        (case get_target_content_in_u64bit_t c s3 operand2 of
           Inl e \<Rightarrow> Inl e
         | Inr b \<Rightarrow> set_target_content_in_u64bit_t c s3 operand1 (a + b)))))"

definition operation :: "cpu_consts \<Rightarrow> 128 word \<Rightarrow> processor \<Rightarrow> target \<Rightarrow> cpu_error + processor" where
  "operation c timestamp s t0 =
     (let (opcode, s1) = cpu_pop64 s
      in if opcode = 0x00 then Inr (nop s1)
         else if opcode = 0x01 then add c s1 t0
         else Inr (soft_interruption_ready (INT_ILLEGAL_INSTRUCTION c) s1))"

section \<open>Operand codec (utils/Assembler/encode.target.cpp)\<close>

subsection \<open>Text helpers\<close>

definition remove_space :: "string \<Rightarrow> string" where
  "remove_space str = filter (\<lambda>ch. ch \<noteq> CHR '' '') str"

text \<open>\<open>std::toupper\<close> in the C locale.\<close>

definition toupper :: "char \<Rightarrow> char" where
  "toupper ch = (let n = (of_char ch :: nat) in if 97 \<le> n \<and> n \<le> 122 then char_of (n - 32) else ch)"

definition capitalization :: "string \<Rightarrow> string" where
  "capitalization input = map toupper input"

datatype codec_error =
    TargetExpressionError string
  | OutOfRange  \<comment> \<open>an access the C++ leaves undefined: \<open>input[0]\<close> on an empty vector, \<open>back()\<close> on an empty string\<close>

subsection \<open>The three operand patterns\<close>

text \<open>\<open>^%(R[0-7]|EXR[0-7]|HER[0-7]|FER[0-7])$\<close>\<close>

definition is_valid_register :: "string \<Rightarrow> bool" where
  "is_valid_register input =
     (case input of
        [] \<Rightarrow> False
      | p # rest \<Rightarrow> p = CHR ''%'' \<and> rest \<noteq> [] \<and>
          butlast rest \<in> set [''R'', ''EXR'', ''HER'', ''FER''] \<and>
          last rest \<in> set ''01234567'')"

text \<open>The regular expression's \<open>.\<close> matches every character but a line terminator.\<close>

definition dot :: "char \<Rightarrow> bool" where
  "dot ch \<longleftrightarrow> ch \<noteq> CHR 0x0A \<and> ch \<noteq> CHR 0x0D"

text \<open>\<open>^\$\((.*)\)$\<close>\<close>

definition is_valid_constant :: "string \<Rightarrow> bool" where
  "is_valid_constant input \<longleftrightarrow>
     3 \<le> length input \<and> take 2 input = ''$('' \<and> last input = CHR '')'' \<and> list_all dot input"

text \<open>
  \<open>^\*([1]|[2]|[4]|[8]|[1][6])\((.*),(.*),(.*)\)$\<close>. The ratio is the alternative that is
  followed by an opening parenthesis. The three groups are greedy, so the text between the
  parentheses is cut at its last two commas.
\<close>

definition match_ratio :: "string \<Rightarrow> (string \<times> string) option" where
  "match_ratio s =
     (if take 2 s = ''1('' then Some (''1'', drop 2 s)
      else if take 2 s = ''2('' then Some (''2'', drop 2 s)
      else if take 2 s = ''4('' then Some (''4'', drop 2 s)
      else if take 2 s = ''8('' then Some (''8'', drop 2 s)
      else if take 3 s = ''16('' then Some (''16'', drop 3 s)
      else None)"

definition split_last_comma :: "string \<Rightarrow> (string \<times> string) option" where
  "split_last_comma s =
     (case dropWhile (\<lambda>ch. ch \<noteq> CHR '','') (rev s) of
        [] \<Rightarrow> None
      | _ # front_rev \<Rightarrow> Some (rev front_rev, rev (takeWhile (\<lambda>ch. ch \<noteq> CHR '','') (rev s))))"

definition memory_match :: "string \<Rightarrow> (string \<times> string \<times> string \<times> string) option" where
  "memory_match input =
     (case input of
        [] \<Rightarrow> None
      | star # s \<Rightarrow>
          if star \<noteq> CHR ''*'' then None
          else case match_ratio s of
            None \<Rightarrow> None
          | Some (ratio, inner) \<Rightarrow>
              if inner = [] \<or> last inner \<noteq> CHR '')'' \<or> \<not> list_all dot inner then None
              else case split_last_comma (butlast inner) of
                None \<Rightarrow> None
              | Some (front, g4) \<Rightarrow>
                  (case split_last_comma front of
                     None \<Rightarrow> None
                   | Some (g2, g3) \<Rightarrow> Some (ratio, g2, g3, g4)))"

definition is_valid_memory :: "string \<Rightarrow> bool" where
  "is_valid_memory input \<longleftrightarrow> memory_match input \<noteq> None"

subsection \<open>\<open>parse\<close>\<close>

datatype parsed_type = NOTaValidType | REGISTER | CONSTANT | MEMORY

record memory_t =
  MemoryAccessRatio :: string
  MemoryBaseAddress :: string
  MemoryOffset1 :: string
  MemoryOffset2 :: string

record parsed_target_t =
  ParsedTargetType :: parsed_type
  RegisterName :: string
  ConstantExpression :: string
  memory :: memory_t

text \<open>The value-initialised \<open>parsed_target_t result { }\<close>.\<close>

definition empty_parsed_target :: parsed_target_t where
  "empty_parsed_target =
     \<lparr>ParsedTargetType = NOTaValidType, RegisterName = [], ConstantExpression = [],
      memory = \<lparr>MemoryAccessRatio = [], MemoryBaseAddress = [], MemoryOffset1 = [],
                MemoryOffset2 = []\<rparr>\<rparr>"

definition parse :: "string \<Rightarrow> codec_error + parsed_target_t" where
  "parse input0 =
     (let input = capitalization (remove_space input0);
          result = empty_parsed_target
      in if is_valid_register input
         then Inr (result\<lparr>RegisterName := input, ParsedTargetType := REGISTER\<rparr>)
         else if is_valid_constant input
         then Inr (result\<lparr>ConstantExpression := input, ParsedTargetType := CONSTANT\<rparr>)
         else if is_valid_memory input
         then (case memory_match input of
                 Some (ratio, g2, g3, g4) \<Rightarrow>
                   Inr (result\<lparr>ParsedTargetType := MEMORY,
                               memory := \<lparr>MemoryAccessRatio = ratio, MemoryBaseAddress = g2,
                                          MemoryOffset1 = g3, MemoryOffset2 = g4\<rparr>\<rparr>)
               | None \<Rightarrow> Inr result)
         else Inl (TargetExpressionError input))"

subsection \<open>C library conversions\<close>

text \<open>
  \<open>strtol\<close>, \<open>strtoll\<close> and \<open>strtoull\<close> in base 10: leading white space, an optional sign, then
  the longest run of decimal digits (none gives 0). \<open>strtoll\<close> saturates at the bounds of
  \<open>long long\<close>; \<open>strtoull\<close> saturates at \<open>ULLONG_MAX\<close> and negates modulo \<open>2^64\<close> after a
  minus sign.
\<close>

definition isspace :: "char \<Rightarrow> bool" where
  "isspace ch \<longleftrightarrow> ch = CHR '' '' \<or> (9 \<le> (of_char ch :: nat) \<and> (of_char ch :: nat) \<le> 13)"

definition isdigit :: "char \<Rightarrow> bool" where
  "isdigit ch \<longleftrightarrow> 48 \<le> (of_char ch :: nat) \<and> (of_char ch :: nat) \<le> 57"

definition digits_value :: "string \<Rightarrow> nat" where
  "digits_value ds = foldl (\<lambda>acc ch. 10 * acc + ((of_char ch :: nat) - 48)) 0 ds"

text \<open>Sign and magnitude of the number a base-10 conversion reads at the front of a string.\<close>

definition scan_decimal :: "string \<Rightarrow> bool \<times> nat" where
  "scan_decimal str =
     (let s1 = dropWhile isspace str;
          negative = (s1 \<noteq> [] \<and> hd s1 = CHR ''-'');
          s2 = (if s1 \<noteq> [] \<and> (hd s1 = CHR ''-'' \<or> hd s1 = CHR ''+'') then tl s1 else s1)
      in (negative, digits_value (takeWhile isdigit s2)))"

definition strtoll :: "string \<Rightarrow> int" where
  "strtoll str =
     (let (negative, magnitude) = scan_decimal str
      in if negative then max (- (2 ^ 63)) (- int magnitude) else min (2 ^ 63 - 1) (int magnitude))"

definition strtol :: "string \<Rightarrow> int" where
  "strtol str = strtoll str"

definition strtoull :: "string \<Rightarrow> int" where
  "strtoull str =
     (let (negative, magnitude) = scan_decimal str
      in if 2 ^ 64 \<le> magnitude then 2 ^ 64 - 1
         else if negative then (- int magnitude) mod 2 ^ 64
         else int magnitude)"

text \<open>\<open>strtoull\<close> in base 16, on a text that starts with \<open>0x\<close>.\<close>

definition is_hex_digit :: "char \<Rightarrow> bool" where
  "is_hex_digit ch \<longleftrightarrow> ch \<in> set ''0123456789ABCDEFabcdef''"

definition hex_digit_value :: "char \<Rightarrow> nat" where
  "hex_digit_value ch =
     (let n = (of_char ch :: nat)
      in if n \<le> 57 then n - 48 else if n \<le> 70 then n - 55 else n - 87)"

definition strtoull16 :: "string \<Rightarrow> nat" where
  "strtoull16 str =
     min (2 ^ 64 - 1)
       (foldl (\<lambda>acc ch. 16 * acc + hex_digit_value ch) 0 (takeWhile is_hex_digit (drop 2 str)))"

text \<open>Stream output of a \<open>uint64_t\<close> under \<open>std::hex << std::uppercase\<close>, and of an \<open>int64_t\<close>.\<close>

definition hex_digit_char :: "nat \<Rightarrow> char" where
  "hex_digit_char d = (if d < 10 then char_of (48 + d) else char_of (55 + d))"

function to_hex :: "nat \<Rightarrow> string" where
  "to_hex n = (if n < 16 then [hex_digit_char n] else to_hex (n div 16) @ [hex_digit_char (n mod 16)])"
  by pat_completeness auto
termination
  by (relation "measure id") auto

declare to_hex.simps [simp del]

definition show_int64 :: "u64 \<Rightarrow> string" where
  "show_int64 num = (if sint num < 0 then ''-'' @ to_string (nat (- sint num))
                     else to_string (nat (sint num)))"

subsection \<open>\<open>process_base16\<close>\<close>

text \<open>
  The lambda \<open>replace_all\<close>: every occurrence of \<open>target\<close> found from left to right is
  replaced, and the search goes on behind the replacement.
\<close>

function replace_all :: "string \<Rightarrow> string \<Rightarrow> string \<Rightarrow> string" where
  "replace_all input target replacement =
     (if target = [] \<or> input = [] then input
      else if take (length target) input = target
      then replacement @ replace_all (drop (length target) input) target replacement
      else hd input # replace_all (tl input) target replacement)"
  by pat_completeness auto
termination
  by (relation "measure (\<lambda>(input, target, replacement). length input)") auto

declare replace_all.simps [simp del]

text \<open>The successive matches of \<open>0x[0-9A-Fa-f]+\<close> that \<open>std::sregex_iterator\<close> visits.\<close>

function base16_matches :: "string \<Rightarrow> string list" where
  "base16_matches s =
     (if s = [] then []
      else if take 2 s = ''0x'' \<and> takeWhile is_hex_digit (drop 2 s) \<noteq> []
      then (''0x'' @ takeWhile is_hex_digit (drop 2 s)) #
           base16_matches (dropWhile is_hex_digit (drop 2 s))
      else base16_matches (tl s))"
  by pat_completeness auto
termination
  by (relation "measure length") (auto intro!: le_less_trans [OF length_dropWhile_le])

declare base16_matches.simps [simp del]

definition process_base16 :: "string \<Rightarrow> string" where
  "process_base16 input0 =
     (let input = replace_all input0 ''0X'' ''0x'';
          data = map (\<lambda>tag. (tag, strtoull16 tag)) (base16_matches input)
      in foldl (\<lambda>inp (tag, rep). replace_all inp tag (to_string rep)) input data)"

subsection \<open>Encoding\<close>

definition push8 :: "u8 list \<Rightarrow> u8 \<Rightarrow> u8 list" where
  "push8 buffer v = buffer @ [v]"

text \<open>
  \<open>push<64>(buffer, &result)\<close> with \<open>result\<close> an \<open>__int128_t\<close>: the eight low bytes of the
  two's-complement value, lowest first (the byte order of the host).
\<close>

definition push64 :: "u8 list \<Rightarrow> int \<Rightarrow> u8 list" where
  "push64 buffer v = buffer @ le_bytes 8 (word_of_int v)"

definition int_to_string :: "int \<Rightarrow> string" where
  "int_to_string i = (if i < 0 then ''-'' @ to_string (nat (- i)) else to_string (nat i))"

text \<open>
  \<open>execute_bc\<close> runs the external calculator \<open>bc\<close> on the expression. The tool is a parameter
  of the model: it maps the expression text to an exit status and the text it prints.
\<close>

type_synonym bc_tool = "string \<Rightarrow> int \<times> string"

definition execute_bc :: "bc_tool \<Rightarrow> string \<Rightarrow> codec_error + string" where
  "execute_bc bc input =
     (let (exit_status, fd_stdout) = bc input
      in if exit_status \<noteq> 0
         then Inl (TargetExpressionError (input @ '': '' @ int_to_string exit_status))
         else Inr fd_stdout)"

text \<open>
  \<open>RegisterName[1]\<close> of a one-character name is the terminating NUL; \<open>back()\<close> of an empty
  name is undefined.
\<close>

definition encode_register :: "u8 list \<Rightarrow> parsed_target_t \<Rightarrow> codec_error + u8 list" where
  "encode_register buffer input =
     (let name = RegisterName input
      in if name = [] then Inl OutOfRange
         else let register_index = (word_of_int (strtol [last name]) :: u8);
                  class_char = (if length name < 2 then CHR 0x00 else name ! 1);
                  buffer1 = push8 buffer REGISTER_PREFIX
              in if class_char = CHR ''R'' then Inr (push8 (push8 buffer1 0x08) register_index)
                 else if class_char = CHR ''E'' then Inr (push8 (push8 buffer1 0x16) register_index)
                 else if class_char = CHR ''H'' then Inr (push8 (push8 buffer1 0x32) register_index)
                 else if class_char = CHR ''F'' then Inr (push8 (push8 buffer1 0x64) register_index)
                 else Inl (TargetExpressionError ''Unrecognized register name''))"

text \<open>
  \<open>tmp.front()\<close> is only evaluated when the two conversions differ; on an empty \<open>tmp\<close> it
  reads the terminating NUL, which is not a minus sign.
\<close>

definition encode_constant :: "bc_tool \<Rightarrow> u8 list \<Rightarrow> parsed_target_t \<Rightarrow> codec_error + u8 list" where
  "encode_constant bc buffer input =
     (if length (ConstantExpression input) \<le> 2
      then Inl (TargetExpressionError (ConstantExpression input))
      else let tmp = process_base16 (tl (tl (butlast (ConstantExpression input))));
               buffer1 = push8 buffer CONSTANT_PREFIX
           in case execute_bc bc tmp of
                Inl e \<Rightarrow> Inl e
              | Inr result_from_bc \<Rightarrow>
                  (let result_cmp1 = strtoll result_from_bc;
                       result_cmp2 = strtoull result_from_bc;
                       result = (if result_cmp1 = result_cmp2 then result_cmp1
                                 else if tmp \<noteq> [] \<and> hd tmp = CHR ''-'' then result_cmp1
                                 else result_cmp2);
                       buffer2 = (if result < 0 then push8 buffer1 0x01 else push8 buffer1 0x00)
                   in Inr (push64 buffer2 result)))"

definition encode_each_parameter :: "bc_tool \<Rightarrow> u8 list \<Rightarrow> string \<Rightarrow> codec_error + u8 list" where
  "encode_each_parameter bc buffer param =
     (if is_valid_register param
      then (if butlast param \<noteq> ''%FER''
            then Inl (TargetExpressionError (''Not a 64bit Register: '' @ param))
            else encode_register buffer
                   (empty_parsed_target\<lparr>ParsedTargetType := REGISTER, RegisterName := param\<rparr>))
      else if is_valid_constant param
      then encode_constant bc buffer
             (empty_parsed_target\<lparr>ParsedTargetType := CONSTANT, ConstantExpression := param\<rparr>)
      else Inl (TargetExpressionError param))"

definition encode_memory :: "bc_tool \<Rightarrow> u8 list \<Rightarrow> parsed_target_t \<Rightarrow> codec_error + u8 list" where
  "encode_memory bc buffer input =
     (let buffer1 = push8 buffer MEMORY_PREFIX;
          ratio = MemoryAccessRatio (memory input);
          buffer2 = (if ratio = ''1'' then push8 buffer1 0x01
                     else if ratio = ''2'' then push8 buffer1 0x02
                     else if ratio = ''4'' then push8 buffer1 0x04
                     else if ratio = ''8'' then push8 buffer1 0x08
                     else if ratio = ''16'' then push8 buffer1 0x16
                     else buffer1)
      in case encode_each_parameter bc buffer2 (MemoryBaseAddress (memory input)) of
           Inl e \<Rightarrow> Inl e
         | Inr buffer3 \<Rightarrow>
        (case encode_each_parameter bc buffer3 (MemoryOffset1 (memory input)) of
           Inl e \<Rightarrow> Inl e
         | Inr buffer4 \<Rightarrow> encode_each_parameter bc buffer4 (MemoryOffset2 (memory input))))"

definition encode_target :: "bc_tool \<Rightarrow> u8 list \<Rightarrow> string \<Rightarrow> codec_error + u8 list" where
  "encode_target bc buffer input =
     (case parse input of
        Inl e \<Rightarrow> Inl e
      | Inr parsed \<Rightarrow>
          if ParsedTargetType parsed = REGISTER then encode_register buffer parsed
          else if ParsedTargetType parsed = CONSTANT then encode_constant bc buffer parsed
          else if ParsedTargetType parsed = MEMORY then encode_memory bc buffer parsed
          else Inl (TargetExpressionError input))"

subsection \<open>Decoding\<close>

text \<open>
  The loop of \<open>pop<LENGTH>\<close> takes \<open>input[0]\<close> and erases it, \<open>LENGTH / 8\<close> times, without
  looking at the size of the vector. Reading from the empty vector is the error \<open>OutOfRange\<close>.
\<close>

fun pop_bytes :: "nat \<Rightarrow> u8 list \<Rightarrow> codec_error + u8 list \<times> u8 list" where
  "pop_bytes 0 input = Inr ([], input)"
| "pop_bytes (Suc n) input =
     (case input of
        [] \<Rightarrow> Inl OutOfRange
      | b # rest \<Rightarrow>
          (case pop_bytes n rest of
             Inl e \<Rightarrow> Inl e
           | Inr (bs, rest') \<Rightarrow> Inr (b # bs, rest')))"

definition pop8 :: "u8 list \<Rightarrow> codec_error + u8 \<times> u8 list" where
  "pop8 input = (case pop_bytes 1 input of
                   Inl e \<Rightarrow> Inl e
                 | Inr (bs, rest) \<Rightarrow> Inr (of_nat (le_nat bs), rest))"

definition pop64 :: "u8 list \<Rightarrow> codec_error + u64 \<times> u8 list" where
  "pop64 input = (case pop_bytes 8 input of
                    Inl e \<Rightarrow> Inl e
                  | Inr (bs, rest) \<Rightarrow> Inr (le_u64 bs, rest))"

definition decode_register :: "string list \<Rightarrow> u8 list \<Rightarrow> codec_error + string list \<times> u8 list" where
  "decode_register output input =
     (case pop8 input of
        Inl e \<Rightarrow> Inl e
      | Inr (register_size, input1) \<Rightarrow>
     (case pop8 input1 of
        Inl e \<Rightarrow> Inl e
      | Inr (register_index, input2) \<Rightarrow>
          (if register_size = 0x08
           then Inr (output @ [''%R'' @ to_string (unat register_index)], input2)
           else if register_size = 0x16
           then Inr (output @ [''%EXR'' @ to_string (unat register_index)], input2)
           else if register_size = 0x32
           then Inr (output @ [''%HER'' @ to_string (unat register_index)], input2)
           else if register_size = 0x64
           then Inr (output @ [''%FER'' @ to_string (unat register_index)], input2)
           else Inl (TargetExpressionError ''Unrecognized register size''))))"

definition decode_constant :: "string list \<Rightarrow> u8 list \<Rightarrow> codec_error + string list \<times> u8 list" where
  "decode_constant output input =
     (case pop8 input of
        Inl e \<Rightarrow> Inl e
      | Inr (sign, input1) \<Rightarrow>
     (case pop64 input1 of
        Inl e \<Rightarrow> Inl e
      | Inr (num, input2) \<Rightarrow>
          Inr (output @ [''$('' @ (if sign \<noteq> 0x00 then show_int64 num else ''0x'' @ to_hex (unat num))
                         @ '')''], input2)))"

definition decode_each_parameter ::
  "string list \<Rightarrow> u8 list \<Rightarrow> codec_error + string list \<times> u8 list" where
  "decode_each_parameter output input =
     (case pop8 input of
        Inl e \<Rightarrow> Inl e
      | Inr (prefix, input1) \<Rightarrow>
          if prefix = REGISTER_PREFIX then decode_register output input1
          else if prefix = CONSTANT_PREFIX then decode_constant output input1
          else Inl (TargetExpressionError ''Unrecognized parameter prefix''))"

definition decode_memory :: "string list \<Rightarrow> u8 list \<Rightarrow> codec_error + string list \<times> u8 list" where
  "decode_memory output input =
     (case pop8 input of
        Inl e \<Rightarrow> Inl e
      | Inr (ratio, input1) \<Rightarrow>
          (case (if ratio = 0x01 then Some ''*1(''
                 else if ratio = 0x02 then Some ''*2(''
                 else if ratio = 0x04 then Some ''*4(''
                 else if ratio = 0x08 then Some ''*8(''
                 else if ratio = 0x16 then Some ''*16(''
                 else None) of
             None \<Rightarrow> Inl (TargetExpressionError ''Unrecognized memory ratio'')
           | Some ret \<Rightarrow>
          (case decode_each_parameter (output @ [ret]) input1 of
             Inl e \<Rightarrow> Inl e
           | Inr (output2, input2) \<Rightarrow>
          (case decode_each_parameter (output2 @ ['', '']) input2 of
             Inl e \<Rightarrow> Inl e
           | Inr (output3, input3) \<Rightarrow>
          (case decode_each_parameter (output3 @ ['', '']) input3 of
             Inl e \<Rightarrow> Inl e
           | Inr (output4, input4) \<Rightarrow> Inr (output4 @ ['')''], input4))))))"

definition decode :: "string list \<Rightarrow> u8 list \<Rightarrow> codec_error + string list \<times> u8 list" where
  "decode output input =
     (case pop8 input of
        Inl e \<Rightarrow> Inl e
      | Inr (prefix, input1) \<Rightarrow>
          if prefix = REGISTER_PREFIX then decode_register output input1
          else if prefix = CONSTANT_PREFIX then decode_constant output input1
          else if prefix = MEMORY_PREFIX then decode_memory output input1
          else Inl (TargetExpressionError ''Unrecognized Target prefix''))"

subsection \<open>The driver of \<open>main\<close>\<close>

text \<open>
  \<open>main\<close> assembles each text into an empty buffer, decodes that buffer into an empty list
  of pieces and prints the pieces one after the other.
\<close>

definition assemble :: "bc_tool \<Rightarrow> string \<Rightarrow> codec_error + u8 list" where
  "assemble bc inp = encode_target bc [] inp"

definition disassemble :: "u8 list \<Rightarrow> codec_error + string \<times> u8 list" where
  "disassemble encode_buffer =
     (case decode [] encode_buffer of
        Inl e \<Rightarrow> Inl e
      | Inr (decode_buffer, rest) \<Rightarrow> Inr (concat decode_buffer, rest))"

section \<open>Canonical operand text, in the words of the specification\<close>

text \<open>
  The canonical text of an operand: spaces stripped, upper case, every constant rendered by
  the sign rule (hexadecimal when unsigned, decimal with a leading minus when signed). The
  value of a constant expression is what the calculator prints for it once every hexadecimal
  literal is replaced by its decimal value, read as signed and as unsigned 64-bit: where the
  two readings agree that is the value, where they differ the signed one counts if the
  expression begins with a minus sign and the unsigned one otherwise. The separator between
  the three sub-operands of a memory form is a parameter: the specification strips every
  space, so its separator is a bare comma.
\<close>

definition begins_with_minus :: "string \<Rightarrow> bool" where
  "begins_with_minus expr = (case expr of [] \<Rightarrow> False | ch # _ \<Rightarrow> ch = CHR ''-'')"

text \<open>
  Hexadecimal literals. The specification recognises the literals \<open>0x\<dots>\<close> of an expression
  and replaces each of them, where it stands, by its decimal value. An expression is cut
  from left to right into its hexadecimal literals (the prefix, in either case, and the
  longest run of hexadecimal digits behind it, at least one) and the characters between
  them; the value of a literal is the number its digits denote in base 16.
\<close>

datatype hex_piece = Plain char | HexLiteral string

function hex_pieces :: "string \<Rightarrow> hex_piece list" where
  "hex_pieces s =
     (if s = [] then []
      else if (take 2 s = ''0x'' \<or> take 2 s = ''0X'') \<and> takeWhile is_hex_digit (drop 2 s) \<noteq> []
      then HexLiteral (takeWhile is_hex_digit (drop 2 s)) #
           hex_pieces (dropWhile is_hex_digit (drop 2 s))
      else Plain (hd s) # hex_pieces (tl s))"
  by pat_completeness auto
termination
  by (relation "measure length") (auto intro!: le_less_trans [OF length_dropWhile_le])

declare hex_pieces.simps [simp del]

definition hex_literal_value :: "string \<Rightarrow> nat" where
  "hex_literal_value ds = foldl (\<lambda>acc ch. 16 * acc + hex_digit_value ch) 0 ds"

fun expand_piece :: "hex_piece \<Rightarrow> string" where
  "expand_piece (Plain ch) = [ch]"
| "expand_piece (HexLiteral ds) = to_string (hex_literal_value ds)"

definition expand_hex :: "string \<Rightarrow> string" where
  "expand_hex expr = concat (map expand_piece (hex_pieces expr))"

definition expression_value :: "bc_tool \<Rightarrow> string \<Rightarrow> int" where
  "expression_value bc expr =
     (let printed = snd (bc (expand_hex expr));
          as_signed = strtoll printed;
          as_unsigned = strtoull printed
      in if as_signed = as_unsigned then as_signed
         else if begins_with_minus expr then as_signed
         else as_unsigned)"

definition render_constant :: "int \<Rightarrow> string" where
  "render_constant v = (if v < 0 then ''-'' @ to_string (nat (- v)) else ''0x'' @ to_hex (nat v))"

definition canonical_operand :: "bc_tool \<Rightarrow> string \<Rightarrow> string" where
  "canonical_operand bc t =
     (if is_valid_register t then t
      else ''$('' @ render_constant (expression_value bc (drop 2 (butlast t))) @ '')'')"

definition canonicalize_with :: "string \<Rightarrow> bc_tool \<Rightarrow> string \<Rightarrow> string" where
  "canonicalize_with separator bc T =
     (let t = capitalization (remove_space T)
      in if is_valid_register t \<or> is_valid_constant t then canonical_operand bc t
         else case memory_match t of
                None \<Rightarrow> t
              | Some (ratio, base, off1, off2) \<Rightarrow>
                  ''*'' @ ratio @ ''('' @ canonical_operand bc base @ separator @
                  canonical_operand bc off1 @ separator @ canonical_operand bc off2 @ '')'')"



text \<open>
  Expressions whose hexadecimal literals stand apart: the letter \<open>X\<close> occurs only in the
  prefix of a literal, no literal is the beginning of another one that differs from it, and
  every literal is below \<open>2^64\<close>.
\<close>

definition hex_literals :: "string \<Rightarrow> string list" where
  "hex_literals expr =
     concat (map (\<lambda>p. case p of Plain ch \<Rightarrow> [] | HexLiteral ds \<Rightarrow> [ds]) (hex_pieces expr))"

definition hex_literals_apart :: "string \<Rightarrow> bool" where
  "hex_literals_apart expr \<longleftrightarrow>
     list_all (\<lambda>p. p \<noteq> Plain (CHR ''X'')) (hex_pieces expr)
     \<and> list_all (\<lambda>a. list_all (\<lambda>b. take (length a) b = a \<longrightarrow> b = a) (hex_literals expr))
          (hex_literals expr)
     \<and> list_all (\<lambda>a. hex_literal_value a < 2 ^ 64) (hex_literals expr)"

text \<open>The same for the constant of an operand, and for every constant of an operand text.\<close>

definition operand_literals_apart :: "string \<Rightarrow> bool" where
  "operand_literals_apart t \<longleftrightarrow> is_valid_register t \<or> hex_literals_apart (drop 2 (butlast t))"

definition literals_apart :: "string \<Rightarrow> bool" where
  "literals_apart T =
     (let t = capitalization (remove_space T)
      in if is_valid_register t \<or> is_valid_constant t then operand_literals_apart t
         else case memory_match t of
                None \<Rightarrow> True
              | Some (ratio, base, off1, off2) \<Rightarrow>
                  operand_literals_apart base \<and> operand_literals_apart off1
                  \<and> operand_literals_apart off2)"

section \<open>Expressions cut into pieces\<close>






section \<open>Instruction streams and sample data\<close>

text \<open>The bytes \<open>bs\<close> lie in memory \<open>m\<close> from address \<open>a\<close> on.\<close>

fun stream_at :: "(u64 \<Rightarrow> u8) \<Rightarrow> u64 \<Rightarrow> u8 list \<Rightarrow> bool" where
  "stream_at m a [] = True"
| "stream_at m a (b # bs) = (m a = b \<and> stream_at m (a + 1) bs)"






text \<open>One admissible choice of the constants that \<open>cpu.h\<close> would supply, for closed examples.\<close>

definition sample_consts :: cpu_consts where
  "sample_consts = \<lparr>R_StackPointer = 0x10, R_DataPointer = 0x11, R_ExtendedSegmentPointer = 0x12,
                     INT_ILLEGAL_INSTRUCTION = 0\<rparr>"

definition load_bytes :: "u8 list \<Rightarrow> u64 \<Rightarrow> u8" where
  "load_bytes bs = (\<lambda>a. if unat a < length bs then bs ! unat a else 0)"

definition zero_registers :: registers where
  "zero_registers = \<lparr>R = (\<lambda>_. 0), ExtendedRegister = (\<lambda>_. 0), HalfExtendedRegister = (\<lambda>_. 0),
     FullyExtendedRegister = (\<lambda>_. 0), StackPointer = 0, DataPointer = 0,
     ExtendedSegmentPointer = 0\<rparr>"

definition blank_target :: target where
  "blank_target = \<lparr>TargetType = TypeRegister, TargetWidth = 0, RegisterIndex = 0,
     ConstantValue = 0, MemoryAddress = 0, literal = []\<rparr>"

text \<open>A processor with zeroed registers that fetches \<open>bs\<close> from address 0; memory is 0 elsewhere.\<close>

definition cpu_with :: "u8 list \<Rightarrow> processor" where
  "cpu_with bs = \<lparr>Registers = zero_registers, Memory = load_bytes bs, InstructionPointer = 0\<rparr>"

text \<open>The same processor with the sixteen fully-extended registers holding \<open>f\<close>.\<close>

definition cpu_with_fer :: "u8 list \<Rightarrow> (nat \<Rightarrow> u64) \<Rightarrow> processor" where
  "cpu_with_fer bs f = (cpu_with bs)\<lparr>Registers := zero_registers\<lparr>FullyExtendedRegister := f\<rparr>\<rparr>"

text \<open>The number of bits a width tag stands for.\<close>

definition width_bits :: "u8 \<Rightarrow> nat" where
  "width_bits tag = (if tag = 0x08 then 8 else if tag = 0x16 then 16
                     else if tag = 0x32 then 32 else if tag = 0x64 then 64 else 0)"


text \<open>A calculator that is never asked, and one that prints a decimal literal back.\<close>

definition bc_unavailable :: bc_tool where
  "bc_unavailable = (\<lambda>expr. (127, []))"


text \<open>A calculator for sums: it prints the sum of the decimal numbers between the plus signs.\<close>

fun plus_terms :: "string \<Rightarrow> string list" where
  "plus_terms [] = [[]]"
| "plus_terms (ch # rest) =
     (if ch = CHR ''+'' then [] # plus_terms rest
      else case plus_terms rest of [] \<Rightarrow> [[ch]] | w # ws \<Rightarrow> (ch # w) # ws)"

definition bc_sum :: bc_tool where
  "bc_sum = (\<lambda>expr. (0, to_string (sum_list (map digits_value (plus_terms expr))) @ [CHR 0x0A]))"

section \<open>Decoders that read a frame\<close>

text \<open>
  A decoder reads a frame when every successful run consumes a front part of its input,
  \<open>k\<close> bytes, behaves the same on every cut of the input that keeps those \<open>k\<close> bytes, and
  runs into \<open>OutOfRange\<close> on every cut that is shorter.
\<close>

definition framed :: "(u8 list \<Rightarrow> codec_error + 'a \<times> u8 list) \<Rightarrow> bool" where
  "framed d \<longleftrightarrow>
     (\<forall>inp a rest. d inp = Inr (a, rest) \<longrightarrow>
        (\<exists>k \<le> length inp. rest = drop k inp
           \<and> (\<forall>m \<ge> k. d (take m inp) = Inr (a, drop k (take m inp)))
           \<and> (\<forall>m < k. d (take m inp) = Inl OutOfRange)))"

section \<open>Properties of the interrupt vector table\<close>

lemma unat_of_nat_u64: "i < 2 ^ 64 \<Longrightarrow> unat (of_nat i :: u64) = i"
  by (simp add: unat_of_nat)

lemma initialize_vector_loop_inv:
  assumes "i \<le> TOTAL_ENTRIES"
    and "\<forall>k. tbl k = (if unat k < i then Some (START_ADDRESS + k * INCREMENT) else None)"
  shows "\<forall>k. initialize_vector_loop i tbl k =
           (if unat k < TOTAL_ENTRIES then Some (START_ADDRESS + k * INCREMENT) else None)"
  using assms
proof (induction i tbl rule: initialize_vector_loop.induct)
  case (1 i tbl)
  show ?case
  proof (cases "i < TOTAL_ENTRIES")
    case False
    with "1.prems" have "i = TOTAL_ENTRIES" by simp
    with False "1.prems" show ?thesis by simp
  next
    case True
    let ?tbl = "map_insert tbl (of_nat i) (START_ADDRESS + of_nat i * INCREMENT)"
    have small: "i < 2 ^ 64" using True by (simp add: TOTAL_ENTRIES_def)
    have un: "unat (of_nat i :: u64) = i"
      using small by (rule unat_of_nat_u64)
    have fresh: "tbl (of_nat i) = None"
      using "1.prems"(2) un by simp
    have step: "\<forall>k. ?tbl k = (if unat k < Suc i then Some (START_ADDRESS + k * INCREMENT) else None)"
    proof
      fix k :: u64
      show "?tbl k = (if unat k < Suc i then Some (START_ADDRESS + k * INCREMENT) else None)"
      proof (cases "k = of_nat i")
        case True
        then show ?thesis using fresh un by (simp add: map_insert_def)
      next
        case False
        then have "unat k \<noteq> i" by auto
        then show ?thesis using fresh False "1.prems"(2)
          by (simp add: map_insert_def less_Suc_eq)
      qed
    qed
    have "Suc i \<le> TOTAL_ENTRIES" using True by simp
    from "1.IH" [OF True this step] show ?thesis
      using True by (subst initialize_vector_loop.simps) simp
  qed
qed

lemma vector_table_lookup:
  "interruption_vector_address_table k =
     (if unat k < TOTAL_ENTRIES then Some (START_ADDRESS + k * INCREMENT) else None)"
proof -
  have "\<forall>k. initialize_vector_loop 0 Map.empty k =
           (if unat k < TOTAL_ENTRIES then Some (START_ADDRESS + k * INCREMENT) else None)"
    by (rule initialize_vector_loop_inv) simp_all
  then show ?thesis by (simp add: interruption_vector_address_table_def)
qed

lemma vector_table_dom:
  "dom interruption_vector_address_table = (of_nat :: nat \<Rightarrow> u64) ` {0 ..< TOTAL_ENTRIES}"
proof (rule set_eqI)
  fix k :: u64
  show "k \<in> dom interruption_vector_address_table \<longleftrightarrow> k \<in> of_nat ` {0 ..< TOTAL_ENTRIES}"
  proof
    assume "k \<in> dom interruption_vector_address_table"
    then have "unat k < TOTAL_ENTRIES"
      by (auto simp: vector_table_lookup split: if_splits)
    then have "unat k \<in> {0 ..< TOTAL_ENTRIES}" by simp
    then have "of_nat (unat k) \<in> (of_nat :: nat \<Rightarrow> u64) ` {0 ..< TOTAL_ENTRIES}" by (rule imageI)
    then show "k \<in> of_nat ` {0 ..< TOTAL_ENTRIES}" by simp
  next
    assume "k \<in> of_nat ` {0 ..< TOTAL_ENTRIES}"
    then obtain i where i: "i < TOTAL_ENTRIES" "k = of_nat i" by auto
    then have "unat k = i" by (simp add: TOTAL_ENTRIES_def unat_of_nat_u64)
    with i show "k \<in> dom interruption_vector_address_table"
      by (simp add: vector_table_lookup dom_def)
  qed
qed

lemma vector_table_card: "card (dom interruption_vector_address_table) = 512"
proof -
  have "inj_on (of_nat :: nat \<Rightarrow> u64) {0 ..< TOTAL_ENTRIES}"
  proof (rule inj_onI)
    fix x y assume "x \<in> {0 ..< TOTAL_ENTRIES}" "y \<in> {0 ..< TOTAL_ENTRIES}"
      and eq: "(of_nat x :: u64) = of_nat y"
    then have x: "x < 2 ^ 64" and y: "y < 2 ^ 64" by (simp_all add: TOTAL_ENTRIES_def)
    have "x = unat (of_nat x :: u64)" using x by (rule unat_of_nat_u64 [symmetric])
    also have "\<dots> = unat (of_nat y :: u64)" using eq by (rule arg_cong)
    also have "\<dots> = y" using y by (rule unat_of_nat_u64)
    finally show "x = y" .
  qed
  then have "card (dom interruption_vector_address_table) = card {0 ..< TOTAL_ENTRIES}"
    by (simp add: vector_table_dom card_image)
  then show ?thesis by (simp add: TOTAL_ENTRIES_def)
qed

text \<open>
  C9. Immediately after initialization, for every index \<open>i\<close> with \<open>0 \<le> i < 512\<close> the table
  maps interrupt number \<open>i\<close> to the address \<open>0xA0000 + 8 * i\<close>, and the table contains
  exactly 512 entries.
\<close>

theorem vector_table_initialized:
  "(\<forall>i < 512. interruption_vector_address_table (of_nat i) = Some (0xA0000 + 8 * of_nat i))
   \<and> card (dom interruption_vector_address_table) = 512"
proof (intro conjI allI impI)
  fix i :: nat
  assume "i < 512"
  then have "unat (of_nat i :: u64) = i" by (simp add: unat_of_nat_u64)
  with \<open>i < 512\<close> show "interruption_vector_address_table (of_nat i) = Some (0xA0000 + 8 * of_nat i)"
    by (simp add: vector_table_lookup TOTAL_ENTRIES_def START_ADDRESS_def INCREMENT_def mult.commute)
next
  show "card (dom interruption_vector_address_table) = 512" by (rule vector_table_card)
qed

theorem vector_table_initialized_witness:
  "(3::nat) < 512 \<and> interruption_vector_address_table 3 = Some 0xA0018
   \<and> (511::nat) < 512 \<and> interruption_vector_address_table 511 = Some 0xA0FF8
   \<and> card (dom interruption_vector_address_table) = 512"
proof -
  from vector_table_initialized
  have a: "\<forall>i < 512. interruption_vector_address_table (of_nat i) = Some (0xA0000 + 8 * of_nat i)"
    and c: "card (dom interruption_vector_address_table) = 512"
    by blast+
  from a have "(3::nat) < 512 \<longrightarrow>
      interruption_vector_address_table (of_nat 3) = Some (0xA0000 + 8 * of_nat 3)"
    by blast
  moreover from a have "(511::nat) < 512 \<longrightarrow>
      interruption_vector_address_table (of_nat 511) = Some (0xA0000 + 8 * of_nat 511)"
    by blast
  ultimately show ?thesis using c by simp
qed

section \<open>Properties of the operand resolver and the executor\<close>

subsection \<open>Evaluation helpers\<close>

lemmas cpu_eval_defs = Target_def cpu_with_def load_bytes_def cpu_pop8_def cpu_pop64_def
  do_decode_via_prefix_def REGISTER_PREFIX_def CONSTANT_PREFIX_def MEMORY_PREFIX_def
  do_setup_constant_info_def do_setup_register_info_def do_setup_memory_info_def
  decode_parameter_def get_target_content_in_u64bit_t_def do_get_register_def
  get_memory_def le_u64_def blank_target_def zero_registers_def sample_consts_def

lemma digit_char_simps [simp]:
  "digit_char 0 = CHR ''0''" "digit_char 1 = CHR ''1''" "digit_char 2 = CHR ''2''"
  "digit_char 3 = CHR ''3''" "digit_char 4 = CHR ''4''" "digit_char 5 = CHR ''5''"
  "digit_char 6 = CHR ''6''" "digit_char 7 = CHR ''7''" "digit_char 8 = CHR ''8''"
  "digit_char 9 = CHR ''9''" "digit_char (Suc 0) = CHR ''1''"
  by code_simp+

lemma upt8: "[0 ..< 8] = [0, 1, 2, 3, 4, 5, 6, 7]"
  by (simp add: upt_conv_Cons)

lemma stream_at_append:
  "stream_at m a (xs @ ys) \<longleftrightarrow> stream_at m a xs \<and> stream_at m (a + of_nat (length xs)) ys"
  by (induction xs arbitrary: a) (simp_all add: add.assoc)

lemma stream_at_map:
  "stream_at m a bs \<Longrightarrow> map (\<lambda>i. m (a + of_nat i)) [0 ..< length bs] = bs"
proof (induction bs arbitrary: a)
  case Nil
  then show ?case by simp
next
  case (Cons b bs)
  have "map (\<lambda>i. m (a + of_nat i)) [0 ..< length (b # bs)]
        = m a # map (\<lambda>i. m ((a + 1) + of_nat i)) [0 ..< length bs]"
    by (simp add: upt_conv_Cons map_Suc_upt [symmetric] ac_simps del: upt_Suc)
  with Cons show ?case by simp
qed

lemma length_le_bytes [simp]: "length (le_bytes n v) = n"
  by (simp add: le_bytes_def)




lemma cpu_pop64_stream:
  "stream_at (Memory s) (InstructionPointer s) (bs @ rest) \<Longrightarrow> length bs = 8 \<Longrightarrow>
   cpu_pop64 s = (le_u64 bs, s\<lparr>InstructionPointer := InstructionPointer s + 8\<rparr>)"
  using stream_at_map [of "Memory s" "InstructionPointer s" bs]
  by (simp add: cpu_pop64_def get_memory_def stream_at_append)

subsection \<open>Constant records in the instruction stream\<close>

text \<open>
  C4, as the code has it. The instruction-stream decoder accepts a constant record exactly
  when the byte after the prefix \<open>02\<close> is the width tag \<open>0x64\<close>: for a record \<open>02 64 VAL\<close>
  with \<open>VAL\<close> eight bytes it produces a constant operand whose 64-bit value is the
  little-endian reading of \<open>VAL\<close> and leaves the instruction pointer behind the record; with
  any other byte in that place, the sign bytes \<open>0x00\<close> and \<open>0x01\<close> among them, it raises the
  illegal-instruction fault.
\<close>

theorem constant_record_decoding:
  "(stream_at (Memory s) (InstructionPointer s) ([CONSTANT_PREFIX, 0x64] @ VAL) \<and> length VAL = 8
      \<longrightarrow> Target c s t0 =
            Inr (s\<lparr>InstructionPointer := InstructionPointer s + 10\<rparr>,
                 t0\<lparr>TargetType := TypeConstant, ConstantValue := le_u64 VAL,
                    literal := ''<$('' @ to_string (unat (le_u64 VAL)) @ '')>''\<rparr>))
   \<and> (stream_at (Memory s) (InstructionPointer s) [CONSTANT_PREFIX, tag] \<and> tag \<noteq> 0x64
      \<longrightarrow> Target c s t0 = Inl IllegalInstruction)"
proof (intro conjI impI)
  assume a: "stream_at (Memory s) (InstructionPointer s) ([CONSTANT_PREFIX, 0x64] @ VAL) \<and> length VAL = 8"
  let ?s2 = "s\<lparr>InstructionPointer := InstructionPointer s + 2\<rparr>"
  from a have "stream_at (Memory ?s2) (InstructionPointer ?s2) (VAL @ [])"
    by (simp add: add.assoc)
  with a have "cpu_pop64 ?s2 = (le_u64 VAL, ?s2\<lparr>InstructionPointer := InstructionPointer ?s2 + 8\<rparr>)"
    using cpu_pop64_stream [of ?s2 VAL "[]"] by blast
  with a show "Target c s t0 =
            Inr (s\<lparr>InstructionPointer := InstructionPointer s + 10\<rparr>,
                 t0\<lparr>TargetType := TypeConstant, ConstantValue := le_u64 VAL,
                    literal := ''<$('' @ to_string (unat (le_u64 VAL)) @ '')>''\<rparr>)"
    by (simp add: Target_def cpu_pop8_def do_decode_via_prefix_def do_setup_constant_info_def
        REGISTER_PREFIX_def CONSTANT_PREFIX_def add.assoc)
next
  assume "stream_at (Memory s) (InstructionPointer s) [CONSTANT_PREFIX, tag] \<and> tag \<noteq> 0x64"
  then show "Target c s t0 = Inl IllegalInstruction"
    by (simp add: Target_def cpu_pop8_def do_decode_via_prefix_def do_setup_constant_info_def
        REGISTER_PREFIX_def CONSTANT_PREFIX_def add.assoc)
qed

text \<open>
  The record \<open>02 64 2A 01 00 00 00 00 00 00\<close> decodes to the constant 298; the record that
  starts \<open>02 01\<close> is refused.
\<close>

theorem constant_record_decoding_witness:
  "stream_at (Memory (cpu_with [0x02, 0x64, 0x2A, 0x01, 0, 0, 0, 0, 0, 0])) 0
     ([CONSTANT_PREFIX, 0x64] @ [0x2A, 0x01, 0, 0, 0, 0, 0, 0])
   \<and> length [0x2A, 0x01, 0, 0, 0, 0, 0, 0 :: u8] = 8
   \<and> Target sample_consts (cpu_with [0x02, 0x64, 0x2A, 0x01, 0, 0, 0, 0, 0, 0]) blank_target
       = Inr ((cpu_with [0x02, 0x64, 0x2A, 0x01, 0, 0, 0, 0, 0, 0])\<lparr>InstructionPointer := 10\<rparr>,
              blank_target\<lparr>TargetType := TypeConstant, ConstantValue := 298,
                           literal := ''<$(298)>''\<rparr>)
   \<and> stream_at (Memory (cpu_with [0x02, 0x01, 0x2A])) 0 [CONSTANT_PREFIX, 0x01]
   \<and> (0x01 :: u8) \<noteq> 0x64
   \<and> Target sample_consts (cpu_with [0x02, 0x01, 0x2A]) blank_target = Inl IllegalInstruction"
proof -
  let ?s = "cpu_with [0x02, 0x64, 0x2A, 0x01, 0, 0, 0, 0, 0, 0]"
  let ?VAL = "[0x2A, 0x01, 0, 0, 0, 0, 0, 0 :: u8]"
  have a: "stream_at (Memory ?s) (InstructionPointer ?s) ([CONSTANT_PREFIX, 0x64] @ ?VAL) \<and> length ?VAL = 8"
    by (simp add: cpu_with_def load_bytes_def CONSTANT_PREFIX_def)
  have v: "le_u64 ?VAL = 298" by (simp add: le_u64_def)
  have ts: "to_string 298 = ''298''" by (simp add: to_string.simps)
  let ?s' = "cpu_with [0x02, 0x01, 0x2A]"
  have b: "stream_at (Memory ?s') (InstructionPointer ?s') [CONSTANT_PREFIX, 0x01] \<and> (0x01 :: u8) \<noteq> 0x64"
    by (simp add: cpu_with_def load_bytes_def CONSTANT_PREFIX_def)
  from constant_record_decoding [of ?s ?VAL sample_consts blank_target] a
  have "Target sample_consts ?s blank_target =
            Inr (?s\<lparr>InstructionPointer := InstructionPointer ?s + 10\<rparr>,
                 blank_target\<lparr>TargetType := TypeConstant, ConstantValue := le_u64 ?VAL,
                    literal := ''<$('' @ to_string (unat (le_u64 ?VAL)) @ '')>''\<rparr>)"
    by blast
  then have 1: "Target sample_consts ?s blank_target
       = Inr (?s\<lparr>InstructionPointer := 10\<rparr>,
              blank_target\<lparr>TargetType := TypeConstant, ConstantValue := 298,
                           literal := ''<$(298)>''\<rparr>)"
    by (simp add: v ts cpu_with_def)
  from constant_record_decoding [of ?s' _ sample_consts blank_target "0x01"] b
  have 2: "Target sample_consts ?s' blank_target = Inl IllegalInstruction"
    by blast
  from a b 1 2 show ?thesis by (simp add: cpu_with_def)
qed

text \<open>
  C4 as stated fails: the records \<open>02 00 2A 00 .. 00\<close> (unsigned 42) and
  \<open>02 01 FF .. FF\<close> (signed -1) both raise the illegal-instruction fault.
\<close>

theorem constant_record_sign_byte_rejected:
  "Target sample_consts (cpu_with [0x02, 0x00, 0x2A, 0, 0, 0, 0, 0, 0, 0]) blank_target
     = Inl IllegalInstruction
   \<and> Target sample_consts (cpu_with [0x02, 0x01, 0xFF, 0xFF, 0xFF, 0xFF, 0xFF, 0xFF, 0xFF, 0xFF])
       blank_target = Inl IllegalInstruction"
  by (simp add: cpu_eval_defs)

subsection \<open>Memory operands in the instruction stream\<close>



text \<open>
  C3 at a failing input. The stream holds the memory operand
  \<open>03 64 | 01 64 00 | 01 64 01 | 01 64 02 | 16\<close>: access width 64, base \<open>FER0\<close>, offsets
  \<open>FER1\<close> and \<open>FER2\<close>, and the ratio byte \<open>0x16\<close>, the packed-BCD code of ratio 16. With
  \<open>FER0 = 0x100\<close>, \<open>FER1 = 0x20\<close> and \<open>FER2 = 3\<close> the resolver's address is the sum times 22,
  the binary value of the byte \<open>0x16\<close>, and not the sum times 16; the literal reads \<open>*22(\<close>.
\<close>

theorem ratio_byte_0x16_multiplies_by_22:
  "map_sum id (\<lambda>(s, t). (MemoryAddress t, literal t))
     (Target sample_consts
        (cpu_with_fer [0x03, 0x64, 0x01, 0x64, 0x00, 0x01, 0x64, 0x01, 0x01, 0x64, 0x02, 0x16]
           ((\<lambda>_. 0)(0 := 0x100, 1 := 0x20, 2 := 0x03)))
        blank_target)
   = Inr ((0x100 + 0x20 + 0x03) * 22, ''<*22(%FER0, %FER1, %FER2)>'')"
  by (simp add: cpu_eval_defs cpu_with_fer_def to_string.simps)

subsection \<open>Reading and writing a memory operand\<close>

text \<open>
  C6 at a failing input. The stream holds the memory operand
  \<open>03 08 | 02 64 21 00 .. | 02 64 00 .. | 02 64 00 .. | 01\<close>: access width 8 bits, base the
  constant \<open>0x21\<close>, both offsets 0, ratio 1, so the effective address is \<open>0x21\<close>, the byte
  behind the record, where the memory holds \<open>11 22 33 44 55 66 77 88\<close>. \<open>get64\<close> on the
  decoded operand returns all eight bytes, \<open>0x8877665544332211\<close>, and not the single byte
  \<open>0x11\<close> zero-extended.
\<close>

theorem memory_get_reads_eight_bytes:
  "(case Target sample_consts
           (cpu_with ([0x03, 0x08,
                       0x02, 0x64, 0x21, 0, 0, 0, 0, 0, 0, 0,
                       0x02, 0x64, 0, 0, 0, 0, 0, 0, 0, 0,
                       0x02, 0x64, 0, 0, 0, 0, 0, 0, 0, 0,
                       0x01]
                      @ [0x11, 0x22, 0x33, 0x44, 0x55, 0x66, 0x77, 0x88]))
           blank_target of
      Inl e \<Rightarrow> Inl e
    | Inr (s, t) \<Rightarrow>
        map_sum id (\<lambda>v. (TargetWidth t, MemoryAddress t, v))
          (get_target_content_in_u64bit_t sample_consts s t))
   = Inr (0x08, 0x21, 0x8877665544332211)"
  by (simp add: cpu_eval_defs upt8)

text \<open>
  The write path narrows to the access width; the read path takes eight bytes whatever
  the width.
\<close>

lemma memory_set_writes_width_bytes:
  assumes "TargetType t = TypeMemory" and "TargetWidth t \<in> {0x08, 0x16, 0x32, 0x64}"
  shows "set_target_content_in_u64bit_t c s t val =
           Inr (write_memory s (MemoryAddress t) (le_bytes (width_bits (TargetWidth t) div 8) val))"
  using assms by (auto simp: set_target_content_in_u64bit_t_def width_bits_def)

lemma memory_get_ignores_width:
  assumes "TargetType t = TypeMemory"
  shows "get_target_content_in_u64bit_t c s t = Inr (le_u64 (get_memory s (MemoryAddress t) 8))"
  using assms by (simp add: get_target_content_in_u64bit_t_def)

subsection \<open>Reading and writing a register operand\<close>

lemma distinct_case_labelsD:
  assumes "distinct_case_labels c"
  shows "16 \<le> R_StackPointer c" "16 \<le> R_DataPointer c" "16 \<le> R_ExtendedSegmentPointer c"
    "R_StackPointer c \<noteq> R_DataPointer c" "R_StackPointer c \<noteq> R_ExtendedSegmentPointer c"
    "R_DataPointer c \<noteq> R_ExtendedSegmentPointer c"
  using assms by (auto simp: distinct_case_labels_def not_less [symmetric])

text \<open>
  C8 at a failing input. \<open>FER8\<close> is a register of declared width 64. Writing any \<open>x\<close> to it
  through the operand (width tag \<open>0x64\<close>, index 8) succeeds and stores \<open>x\<close>; reading the
  same operand back raises the illegal-instruction fault instead of yielding \<open>x\<close>, because
  \<open>do_get_register\<close> has no case for the indices 8 to 15.
\<close>

theorem fer8_write_then_read_faults:
  assumes "distinct_case_labels c" and "TargetType t = TypeRegister"
    and "TargetWidth t = 0x64" and "RegisterIndex t = 8"
  shows "set_target_content_in_u64bit_t c s t x =
           Inr (set_registers s ((Registers s)
                  \<lparr>FullyExtendedRegister := (FullyExtendedRegister (Registers s))(8 := x)\<rparr>))
         \<and> get_target_content_in_u64bit_t c
              (set_registers s ((Registers s)
                  \<lparr>FullyExtendedRegister := (FullyExtendedRegister (Registers s))(8 := x)\<rparr>)) t
             = Inl IllegalInstruction"
  using assms distinct_case_labelsD [OF assms(1)]
  by (auto simp: set_target_content_in_u64bit_t_def get_target_content_in_u64bit_t_def
      do_set_register_def do_get_register_def set_registers_def Let_def)

theorem fer8_write_then_read_faults_witness:
  "distinct_case_labels sample_consts
   \<and> TargetType (blank_target\<lparr>TargetWidth := 0x64, RegisterIndex := 8\<rparr>) = TypeRegister
   \<and> TargetWidth (blank_target\<lparr>TargetWidth := 0x64, RegisterIndex := 8\<rparr>) = 0x64
   \<and> RegisterIndex (blank_target\<lparr>TargetWidth := 0x64, RegisterIndex := 8\<rparr>) = 8
   \<and> set_target_content_in_u64bit_t sample_consts (cpu_with [])
         (blank_target\<lparr>TargetWidth := 0x64, RegisterIndex := 8\<rparr>) 0xDEADBEEF
       = Inr (cpu_with_fer [] ((\<lambda>_. 0)(8 := 0xDEADBEEF)))
   \<and> get_target_content_in_u64bit_t sample_consts (cpu_with_fer [] ((\<lambda>_. 0)(8 := 0xDEADBEEF)))
         (blank_target\<lparr>TargetWidth := 0x64, RegisterIndex := 8\<rparr>)
       = Inl IllegalInstruction"
proof -
  let ?t = "blank_target\<lparr>TargetWidth := 0x64, RegisterIndex := 8\<rparr>"
  have a: "distinct_case_labels sample_consts"
    by (simp add: distinct_case_labels_def sample_consts_def upt_conv_Cons)
  have b: "TargetType ?t = TypeRegister" and c: "TargetWidth ?t = 0x64" and d: "RegisterIndex ?t = 8"
    by (simp_all add: blank_target_def)
  have e: "set_registers (cpu_with []) ((Registers (cpu_with []))
             \<lparr>FullyExtendedRegister := (FullyExtendedRegister (Registers (cpu_with [])))(8 := 0xDEADBEEF)\<rparr>)
           = cpu_with_fer [] ((\<lambda>_. 0)(8 := 0xDEADBEEF))"
    by (simp add: set_registers_def cpu_with_def cpu_with_fer_def zero_registers_def)
  from fer8_write_then_read_faults [OF a b c d, of "cpu_with []" "0xDEADBEEF"] a b c d
  show ?thesis unfolding e by simp
qed


text \<open>
  For every register operand that both accessors decode, a write followed by a read yields
  the written value narrowed to the declared width.
\<close>

lemma register_write_read:
  assumes "distinct_case_labels c" and "TargetType t = TypeRegister"
    and "set_target_content_in_u64bit_t c s t x = Inr s'"
    and "get_target_content_in_u64bit_t c s' t = Inr v"
  shows "v = take_bit (width_bits (TargetWidth t)) x"
proof -
  note d = distinct_case_labelsD [OF assms(1)]
  have tb: "take_bit 64 x = x" by (simp add: take_bit_word_eq_self)
  from assms(2-4) d tb show ?thesis
    by (auto simp: set_target_content_in_u64bit_t_def get_target_content_in_u64bit_t_def
        do_set_register_def do_get_register_def set_registers_def Let_def width_bits_def
        unsigned_ucast_eq
        split: if_splits)
qed

lemma parse_FER15: "parse ''%FER15'' = Inl (TargetExpressionError ''%FER15'')"
  by code_simp

lemma to_string_15: "to_string 15 = ''15''"
  by (simp add: to_string.simps)

text \<open>
  C5 at a failing input, \<open>n = 15\<close>. The text \<open>%FER15\<close> is refused by \<open>parse\<close>. The register
  record \<open>01 64 0F\<close> decodes to the operand \<open>%FER15\<close>, which can be written in any processor
  state \<open>s'\<close>, but reading it raises the illegal-instruction fault.
\<close>

theorem fer15_not_usable:
  assumes "distinct_case_labels c"
    and "stream_at (Memory s) (InstructionPointer s) [REGISTER_PREFIX, 0x64, 15]"
  shows "parse ''%FER15'' = Inl (TargetExpressionError ''%FER15'')
         \<and> Target c s t0 =
             Inr (s\<lparr>InstructionPointer := InstructionPointer s + 3\<rparr>,
                  t0\<lparr>RegisterIndex := 15, TargetType := TypeRegister, TargetWidth := 0x64,
                     literal := ''<%FER15>''\<rparr>)
         \<and> get_target_content_in_u64bit_t c s'
               (t0\<lparr>RegisterIndex := 15, TargetType := TypeRegister, TargetWidth := 0x64,
                   literal := ''<%FER15>''\<rparr>) = Inl IllegalInstruction
         \<and> set_target_content_in_u64bit_t c s'
               (t0\<lparr>RegisterIndex := 15, TargetType := TypeRegister, TargetWidth := 0x64,
                   literal := ''<%FER15>''\<rparr>) x
             = Inr (set_registers s' ((Registers s')
                  \<lparr>FullyExtendedRegister := (FullyExtendedRegister (Registers s'))(15 := x)\<rparr>))"
proof (intro conjI)
  show "parse ''%FER15'' = Inl (TargetExpressionError ''%FER15'')" by (rule parse_FER15)
next
  from assms(2) show "Target c s t0 =
             Inr (s\<lparr>InstructionPointer := InstructionPointer s + 3\<rparr>,
                  t0\<lparr>RegisterIndex := 15, TargetType := TypeRegister, TargetWidth := 0x64,
                     literal := ''<%FER15>''\<rparr>)"
    by (simp add: Target_def cpu_pop8_def do_decode_via_prefix_def do_setup_register_info_def
        REGISTER_PREFIX_def to_string_15 add.assoc)
next
  from distinct_case_labelsD [OF assms(1)]
  show "get_target_content_in_u64bit_t c s'
               (t0\<lparr>RegisterIndex := 15, TargetType := TypeRegister, TargetWidth := 0x64,
                   literal := ''<%FER15>''\<rparr>) = Inl IllegalInstruction"
    by (auto simp: get_target_content_in_u64bit_t_def do_get_register_def Let_def)
next
  show "set_target_content_in_u64bit_t c s'
               (t0\<lparr>RegisterIndex := 15, TargetType := TypeRegister, TargetWidth := 0x64,
                   literal := ''<%FER15>''\<rparr>) x
             = Inr (set_registers s' ((Registers s')
                  \<lparr>FullyExtendedRegister := (FullyExtendedRegister (Registers s'))(15 := x)\<rparr>))"
    by (simp add: set_target_content_in_u64bit_t_def do_set_register_def Let_def)
qed

theorem fer15_not_usable_witness:
  "distinct_case_labels sample_consts
   \<and> stream_at (Memory (cpu_with [0x01, 0x64, 0x0F])) (InstructionPointer (cpu_with [0x01, 0x64, 0x0F]))
         [REGISTER_PREFIX, 0x64, 15]
   \<and> parse ''%FER15'' = Inl (TargetExpressionError ''%FER15'')
   \<and> get_target_content_in_u64bit_t sample_consts (cpu_with [0x01, 0x64, 0x0F])
         (blank_target\<lparr>RegisterIndex := 15, TargetType := TypeRegister, TargetWidth := 0x64,
                      literal := ''<%FER15>''\<rparr>) = Inl IllegalInstruction"
proof -
  have a: "distinct_case_labels sample_consts"
    by (simp add: distinct_case_labels_def sample_consts_def upt_conv_Cons)
  have b: "stream_at (Memory (cpu_with [0x01, 0x64, 0x0F]))
             (InstructionPointer (cpu_with [0x01, 0x64, 0x0F])) [REGISTER_PREFIX, 0x64, 15]"
    by (simp add: cpu_with_def load_bytes_def REGISTER_PREFIX_def)
  from fer15_not_usable [OF a b, of blank_target "cpu_with [0x01, 0x64, 0x0F]"] a b
  show ?thesis by blast
qed

subsection \<open>Unknown opcodes\<close>

lemma no_vector_entry_8: "8 \<notin> ran interruption_vector_address_table"
proof
  assume "8 \<in> ran interruption_vector_address_table"
  then obtain k where k: "interruption_vector_address_table k = Some 8"
    by (auto simp: ran_def)
  then have lt: "unat k < 512" and eq: "START_ADDRESS + k * INCREMENT = 8"
    by (auto simp: vector_table_lookup TOTAL_ENTRIES_def split: if_splits)
  have "unat (START_ADDRESS + k * INCREMENT) = 655360 + unat k * 8"
    using lt by (simp add: START_ADDRESS_def INCREMENT_def unat_word_ariths)
  with eq show False by simp
qed

text \<open>
  C7, as the code has it. For every opcode value other than \<open>0x00\<close> and \<open>0x01\<close>, one step
  returns normally and is the call \<open>soft_interruption_ready(INT_ILLEGAL_INSTRUCTION)\<close> on the
  state left by fetching the opcode. That call has no effect: the step leaves the registers
  and the memory as they were, and the instruction pointer eight bytes further, just behind
  the opcode.
\<close>

theorem unknown_opcode_step:
  assumes "fst (cpu_pop64 s) \<noteq> 0x00" and "fst (cpu_pop64 s) \<noteq> 0x01"
  shows "operation c timestamp s t0
           = Inr (soft_interruption_ready (INT_ILLEGAL_INSTRUCTION c) (snd (cpu_pop64 s)))
         \<and> operation c timestamp s t0
           = Inr (s\<lparr>InstructionPointer := InstructionPointer s + 8\<rparr>)"
  using assms
  by (simp add: operation_def soft_interruption_ready_def cpu_pop64_def split: prod.splits)

theorem unknown_opcode_step_witness:
  "fst (cpu_pop64 (cpu_with [0x02, 0, 0, 0, 0, 0, 0, 0])) \<noteq> 0x00
   \<and> fst (cpu_pop64 (cpu_with [0x02, 0, 0, 0, 0, 0, 0, 0])) \<noteq> 0x01
   \<and> operation sample_consts 0 (cpu_with [0x02, 0, 0, 0, 0, 0, 0, 0]) blank_target
       = Inr ((cpu_with [0x02, 0, 0, 0, 0, 0, 0, 0])\<lparr>InstructionPointer := 8\<rparr>)"
proof -
  have a: "fst (cpu_pop64 (cpu_with [0x02, 0, 0, 0, 0, 0, 0, 0])) = 2"
    by (simp add: cpu_eval_defs upt8)
  then have b: "fst (cpu_pop64 (cpu_with [0x02, 0, 0, 0, 0, 0, 0, 0])) \<noteq> 0x00"
    and c: "fst (cpu_pop64 (cpu_with [0x02, 0, 0, 0, 0, 0, 0, 0])) \<noteq> 0x01"
    by simp_all
  from unknown_opcode_step [OF b c, of sample_consts 0 blank_target]
  have "operation sample_consts 0 (cpu_with [0x02, 0, 0, 0, 0, 0, 0, 0]) blank_target
        = Inr ((cpu_with [0x02, 0, 0, 0, 0, 0, 0, 0])
            \<lparr>InstructionPointer := InstructionPointer (cpu_with [0x02, 0, 0, 0, 0, 0, 0, 0]) + 8\<rparr>)"
    by (rule conjunct2)
  moreover have "InstructionPointer (cpu_with [0x02, 0, 0, 0, 0, 0, 0, 0]) + 8 = 8"
    by (simp add: cpu_with_def)
  ultimately show ?thesis using b c by simp
qed

text \<open>
  C7 as stated fails. A step from address 0 on the unknown opcode 2 ends with the
  instruction pointer at 8. That is not the vector entry of the interrupt code (\<open>0xA0000\<close>
  for vector 0), and it is the entry of no vector at all.
\<close>

theorem unknown_opcode_ip_not_vector_entry:
  "(case operation sample_consts 0 (cpu_with [0x02, 0, 0, 0, 0, 0, 0, 0]) blank_target of
      Inl e \<Rightarrow> None
    | Inr s' \<Rightarrow> Some (InstructionPointer s')) = Some 8
   \<and> interruption_vector_address_table (INT_ILLEGAL_INSTRUCTION sample_consts) = Some 0xA0000
   \<and> 8 \<notin> ran interruption_vector_address_table"
proof (intro conjI)
  show "(case operation sample_consts 0 (cpu_with [0x02, 0, 0, 0, 0, 0, 0, 0]) blank_target of
      Inl e \<Rightarrow> None
    | Inr s' \<Rightarrow> Some (InstructionPointer s')) = Some 8"
    by (simp add: operation_def cpu_eval_defs upt8 soft_interruption_ready_def)
next
  show "interruption_vector_address_table (INT_ILLEGAL_INSTRUCTION sample_consts) = Some 0xA0000"
    by (simp add: vector_table_lookup sample_consts_def TOTAL_ENTRIES_def START_ADDRESS_def)
next
  show "8 \<notin> ran interruption_vector_address_table" by (rule no_vector_entry_8)
qed

section \<open>Properties of the operand codec\<close>

subsection \<open>Truncated input\<close>

lemma framedI:
  assumes "\<And>inp a rest. d inp = Inr (a, rest) \<Longrightarrow>
        \<exists>k \<le> length inp. rest = drop k inp
           \<and> (\<forall>m \<ge> k. d (take m inp) = Inr (a, drop k (take m inp)))
           \<and> (\<forall>m < k. d (take m inp) = Inl OutOfRange)"
  shows "framed d"
  using assms unfolding framed_def by blast

lemma framedD:
  assumes "framed d" and "d inp = Inr (a, rest)"
  shows "\<exists>k. k \<le> length inp \<and> rest = drop k inp
    \<and> (\<forall>m. k \<le> m \<longrightarrow> d (take m inp) = Inr (a, drop k (take m inp)))
    \<and> (\<forall>m. m < k \<longrightarrow> d (take m inp) = Inl OutOfRange)"
  using assms unfolding framed_def by blast

lemma pop8_Cons [simp]: "pop8 (b # rest) = Inr (b, rest)"
  by (simp add: pop8_def)

lemma pop8_Nil [simp]: "pop8 [] = Inl OutOfRange"
  by (simp add: pop8_def)

lemma pop_bytes_eq:
  "pop_bytes n inp = (if length inp < n then Inl OutOfRange else Inr (take n inp, drop n inp))"
proof (induction n arbitrary: inp)
  case 0
  show ?case by simp
next
  case (Suc n)
  show ?case by (cases inp) (simp_all add: Suc)
qed

lemma pop64_eq:
  "pop64 inp = (if length inp < 8 then Inl OutOfRange else Inr (le_u64 (take 8 inp), drop 8 inp))"
  by (simp add: pop64_def pop_bytes_eq)

lemma framed_pop8: "framed pop8"
proof (rule framedI)
  fix inp a rest assume "pop8 inp = Inr (a, rest)"
  then obtain inp: "inp = a # rest" by (cases inp) simp_all
  show "\<exists>k \<le> length inp. rest = drop k inp
           \<and> (\<forall>m \<ge> k. pop8 (take m inp) = Inr (a, drop k (take m inp)))
           \<and> (\<forall>m < k. pop8 (take m inp) = Inl OutOfRange)"
  proof (intro exI [of _ 1] conjI allI impI)
    fix m :: nat assume "1 \<le> m"
    then obtain m' where "m = Suc m'" by (cases m) simp_all
    then show "pop8 (take m inp) = Inr (a, drop 1 (take m inp))" by (simp add: inp)
  qed (simp_all add: inp)
qed

lemma framed_pop64: "framed pop64"
proof (rule framedI)
  fix inp a rest assume p: "pop64 inp = Inr (a, rest)"
  then have len: "8 \<le> length inp" and a: "a = le_u64 (take 8 inp)" and r: "rest = drop 8 inp"
    by (auto simp: pop64_eq split: if_splits)
  show "\<exists>k \<le> length inp. rest = drop k inp
           \<and> (\<forall>m \<ge> k. pop64 (take m inp) = Inr (a, drop k (take m inp)))
           \<and> (\<forall>m < k. pop64 (take m inp) = Inl OutOfRange)"
  proof (intro exI [of _ 8] conjI allI impI)
    fix m :: nat assume "8 \<le> m"
    then show "pop64 (take m inp) = Inr (a, drop 8 (take m inp))"
      using len by (simp add: pop64_eq a min_def)
  next
    fix m :: nat assume "m < 8"
    then show "pop64 (take m inp) = Inl OutOfRange"
      by (simp add: pop64_eq)
  qed (simp_all add: len r)
qed

lemma framed_return: "framed (\<lambda>inp. Inr (a, inp))"
  by (rule framedI) (auto intro!: exI [of _ 0])

lemma framed_fail: "framed (\<lambda>inp. Inl e)"
  by (rule framedI) simp

lemma framed_if: "framed d1 \<Longrightarrow> framed d2 \<Longrightarrow> framed (\<lambda>inp. if c then d1 inp else d2 inp)"
  by (cases c) simp_all

lemma framed_bind:
  assumes f1: "framed d1" and f2: "\<And>a. framed (d2 a)"
  shows "framed (\<lambda>inp. case d1 inp of Inl e \<Rightarrow> Inl e | Inr (a, rest) \<Rightarrow> d2 a rest)"
proof (rule framedI)
  fix inp b rest
  assume run: "(case d1 inp of Inl e \<Rightarrow> Inl e | Inr (a, rest) \<Rightarrow> d2 a rest) = Inr (b, rest)"
  then obtain a rest1 where r1: "d1 inp = Inr (a, rest1)" and r2: "d2 a rest1 = Inr (b, rest)"
    by (auto split: sum.splits)
  from framedD [OF f1 r1] obtain k1 where k1: "k1 \<le> length inp" "rest1 = drop k1 inp"
    and ok1: "\<forall>m. k1 \<le> m \<longrightarrow> d1 (take m inp) = Inr (a, drop k1 (take m inp))"
    and tr1: "\<forall>m. m < k1 \<longrightarrow> d1 (take m inp) = Inl OutOfRange"
    by blast
  from framedD [OF f2 r2] obtain k2 where k2: "k2 \<le> length rest1" "rest = drop k2 rest1"
    and ok2: "\<forall>m. k2 \<le> m \<longrightarrow> d2 a (take m rest1) = Inr (b, drop k2 (take m rest1))"
    and tr2: "\<forall>m. m < k2 \<longrightarrow> d2 a (take m rest1) = Inl OutOfRange"
    by blast
  have dt: "\<And>m. k1 \<le> m \<Longrightarrow> drop k1 (take m inp) = take (m - k1) rest1"
    by (simp add: k1 drop_take)
  show "\<exists>k \<le> length inp. rest = drop k inp
           \<and> (\<forall>m \<ge> k. (case d1 (take m inp) of Inl e \<Rightarrow> Inl e | Inr (a, rest) \<Rightarrow> d2 a rest)
                          = Inr (b, drop k (take m inp)))
           \<and> (\<forall>m < k. (case d1 (take m inp) of Inl e \<Rightarrow> Inl e | Inr (a, rest) \<Rightarrow> d2 a rest)
                          = Inl OutOfRange)"
  proof (intro exI [of _ "k1 + k2"] conjI allI impI)
    show "k1 + k2 \<le> length inp" using k1 k2 by simp
    show "rest = drop (k1 + k2) inp" using k1 k2 by (simp add: add.commute)
  next
    fix m assume m: "k1 + k2 \<le> m"
    then have "k1 \<le> m" "k2 \<le> m - k1" by simp_all
    moreover have "drop (k1 + k2) (take m inp) = drop k2 (drop k1 (take m inp))"
      by (simp add: add.commute)
    ultimately show "(case d1 (take m inp) of Inl e \<Rightarrow> Inl e | Inr (a, rest) \<Rightarrow> d2 a rest)
                 = Inr (b, drop (k1 + k2) (take m inp))"
      using ok1 [rule_format, of m] ok2 [rule_format, of "m - k1"] dt [of m]
      by (simp del: drop_drop)
  next
    fix m assume m: "m < k1 + k2"
    show "(case d1 (take m inp) of Inl e \<Rightarrow> Inl e | Inr (a, rest) \<Rightarrow> d2 a rest) = Inl OutOfRange"
    proof (cases "m < k1")
      case True
      then show ?thesis using tr1 by simp
    next
      case False
      then have "k1 \<le> m" "m - k1 < k2" using m by simp_all
      then show ?thesis
        using ok1 [rule_format, of m] tr2 [rule_format, of "m - k1"] dt [of m] by simp
    qed
  qed
qed


lemma framed_decode_register: "framed (decode_register output)"
proof -
  have "decode_register output =
     (\<lambda>inp. case pop8 inp of Inl e \<Rightarrow> Inl e | Inr (register_size, input1) \<Rightarrow>
        (\<lambda>register_size input1. case pop8 input1 of Inl e \<Rightarrow> Inl e | Inr (register_index, input2) \<Rightarrow>
          (\<lambda>register_index input2.
           if register_size = 0x08
           then Inr (output @ [''%R'' @ to_string (unat register_index)], input2)
           else if register_size = 0x16
           then Inr (output @ [''%EXR'' @ to_string (unat register_index)], input2)
           else if register_size = 0x32
           then Inr (output @ [''%HER'' @ to_string (unat register_index)], input2)
           else if register_size = 0x64
           then Inr (output @ [''%FER'' @ to_string (unat register_index)], input2)
           else Inl (TargetExpressionError ''Unrecognized register size'')) register_index input2)
         register_size input1)"
    by (rule ext) (simp add: decode_register_def)
  then show ?thesis
    by (simp only:) (intro framed_bind framed_pop8 framed_if framed_return framed_fail)
qed

lemma framed_decode_constant: "framed (decode_constant output)"
proof -
  have "decode_constant output =
     (\<lambda>inp. case pop8 inp of Inl e \<Rightarrow> Inl e | Inr (sign, input1) \<Rightarrow>
        (\<lambda>sign input1. case pop64 input1 of Inl e \<Rightarrow> Inl e | Inr (num, input2) \<Rightarrow>
          (\<lambda>num input2.
             Inr (output @ [''$('' @ (if sign \<noteq> 0x00 then show_int64 num else ''0x'' @ to_hex (unat num))
                         @ '')''], input2)) num input2) sign input1)"
    by (rule ext) (simp add: decode_constant_def)
  then show ?thesis
    by (simp only:) (intro framed_bind framed_pop8 framed_pop64 framed_return)
qed

lemma framed_decode_each_parameter: "framed (decode_each_parameter output)"
proof -
  have "decode_each_parameter output =
     (\<lambda>inp. case pop8 inp of Inl e \<Rightarrow> Inl e | Inr (prefix, input1) \<Rightarrow>
        (\<lambda>prefix input1.
          if prefix = REGISTER_PREFIX then decode_register output input1
          else if prefix = CONSTANT_PREFIX then decode_constant output input1
          else Inl (TargetExpressionError ''Unrecognized parameter prefix'')) prefix input1)"
    by (rule ext) (simp add: decode_each_parameter_def)
  then show ?thesis
    by (simp only:)
       (intro framed_bind framed_pop8 framed_if framed_decode_register framed_decode_constant
          framed_fail)
qed


lemma framed_option:
  assumes "\<And>r. framed (d r)"
  shows "framed (\<lambda>inp. case opt of None \<Rightarrow> Inl e | Some r \<Rightarrow> d r inp)"
  using assms by (cases opt) (simp_all add: framed_fail)

lemma framed_decode_memory: "framed (decode_memory output)"
proof -
  have "decode_memory output =
     (\<lambda>inp. case pop8 inp of Inl e \<Rightarrow> Inl e | Inr (ratio, input1) \<Rightarrow>
          (case (if ratio = 0x01 then Some ''*1(''
                 else if ratio = 0x02 then Some ''*2(''
                 else if ratio = 0x04 then Some ''*4(''
                 else if ratio = 0x08 then Some ''*8(''
                 else if ratio = 0x16 then Some ''*16(''
                 else None) of
             None \<Rightarrow> Inl (TargetExpressionError ''Unrecognized memory ratio'')
           | Some ret \<Rightarrow>
          (case decode_each_parameter (output @ [ret]) input1 of
             Inl e \<Rightarrow> Inl e
           | Inr (output2, input2) \<Rightarrow>
          (case decode_each_parameter (output2 @ ['', '']) input2 of
             Inl e \<Rightarrow> Inl e
           | Inr (output3, input3) \<Rightarrow>
          (case decode_each_parameter (output3 @ ['', '']) input3 of
             Inl e \<Rightarrow> Inl e
           | Inr (output4, input4) \<Rightarrow> Inr (output4 @ ['')''], input4))))))"
    by (rule ext) (simp add: decode_memory_def)
  then show ?thesis
    by (simp only:)
       (intro framed_bind framed_pop8 framed_option framed_decode_each_parameter framed_return)
qed

lemma framed_decode: "framed (decode output)"
proof -
  have "decode output =
     (\<lambda>inp. case pop8 inp of Inl e \<Rightarrow> Inl e | Inr (prefix, input1) \<Rightarrow>
          if prefix = REGISTER_PREFIX then decode_register output input1
          else if prefix = CONSTANT_PREFIX then decode_constant output input1
          else if prefix = MEMORY_PREFIX then decode_memory output input1
          else Inl (TargetExpressionError ''Unrecognized Target prefix''))"
    by (rule ext) (simp add: decode_def)
  then show ?thesis
    by (simp only:)
       (intro framed_bind framed_pop8 framed_if framed_decode_register framed_decode_constant
          framed_decode_memory framed_fail)
qed

text \<open>
  C10. \<open>pop\<close> takes each byte from the front of the input without a length check; reading
  from the empty vector is the error \<open>OutOfRange\<close> of this model. For every byte stream \<open>V\<close>
  that \<open>decode\<close> accepts as exactly one operand record, \<open>decode\<close> on every strict prefix of
  \<open>V\<close>, the empty stream included, returns that error and no operand.
\<close>

theorem decode_truncated_stream:
  assumes "decode output V = Inr (output', [])" and "n < length V"
  shows "decode output (take n V) = Inl OutOfRange"
proof -
  from framedD [OF framed_decode assms(1)] obtain k where k: "k \<le> length V" "[] = drop k V"
    and tr: "\<forall>m. m < k \<longrightarrow> decode output (take m V) = Inl OutOfRange"
    by blast
  from k have "k = length V" by simp
  with tr assms(2) show ?thesis by simp
qed

text \<open>
  The bytes \<open>01 08 07\<close> that the assembler produces for \<open>%R7\<close>, cut after two bytes and
  after none.
\<close>

theorem decode_truncated_stream_witness:
  "assemble bc_unavailable ''%R7'' = Inr [0x01, 0x08, 0x07]
   \<and> decode [] [0x01, 0x08, 0x07] = Inr ([''%R7''], [])
   \<and> (2::nat) < length [0x01, 0x08, 0x07 :: u8]
   \<and> decode [] (take 2 [0x01, 0x08, 0x07]) = Inl OutOfRange
   \<and> (0::nat) < length [0x01, 0x08, 0x07 :: u8]
   \<and> decode [] (take 0 [0x01, 0x08, 0x07]) = Inl OutOfRange"
proof -
  have e: "assemble bc_unavailable ''%R7'' = Inr [0x01, 0x08, 0x07]"
    by code_simp
  have a: "decode [] [0x01, 0x08, 0x07] = Inr ([''%R7''], [])"
    by (simp add: decode_def decode_register_def REGISTER_PREFIX_def to_string.simps)
  have b: "(2::nat) < length [0x01, 0x08, 0x07 :: u8]" and c: "(0::nat) < length [0x01, 0x08, 0x07 :: u8]"
    by simp_all
  from decode_truncated_stream [OF a b] decode_truncated_stream [OF a c] a b c e
  show ?thesis by blast
qed

subsection \<open>Numbers and their text\<close>







subsection \<open>Register operands\<close>








subsection \<open>Hexadecimal literals\<close>




































text \<open>
  Where one literal is the beginning of another, the text of the shorter one is replaced
  inside the longer one: in \<open>$(0x1+0x10)\<close> the calculator is handed \<open>1+10\<close>, the operand is
  assembled as 11, and the canonical text has the value 17.
\<close>

lemma overlapping_hex_literals:
  "process_base16 ''0X1+0X10'' = ''1+10''
   \<and> expand_hex ''0X1+0X10'' = ''1+16''
   \<and> \<not> literals_apart ''$(0x1+0x10)''
   \<and> assemble bc_sum ''$(0x1+0x10)'' = Inr [0x02, 0x00, 0x0B, 0, 0, 0, 0, 0, 0, 0]
   \<and> disassemble [0x02, 0x00, 0x0B, 0, 0, 0, 0, 0, 0, 0] = Inr (''$(0xB)'', [])
   \<and> canonicalize_with '', '' bc_sum ''$(0x1+0x10)'' = ''$(0x11)''"
  by code_simp






subsection \<open>Constant operands\<close>
















subsection \<open>Sub-operands and memory forms\<close>










subsection \<open>Assembling, then disassembling\<close>


lemma valid_memory_not_operand:
  assumes "memory_match t = Some m"
  shows "\<not> is_valid_register t \<and> \<not> is_valid_constant t"
  using assms
  by (auto simp: memory_match_def is_valid_register_def is_valid_constant_def
      split: list.splits if_splits)




subsection \<open>The two byte layouts of a memory operand\<close>









end
